theory Spec2Isabelle
  imports Main
begin

section \<open>Configuration (app/config.py)\<close>

text \<open>
  The pydantic settings object. Python strings are modelled as \<open>string\<close>; the integers
  are Python's unbounded \<open>int\<close>.
\<close>

record Settings =
  app_name :: string
  gemini_api_key :: "string option"
  allowed_sectors :: "string list"
  rate_limit_requests :: int
  rate_limit_period :: int
  secret_key :: string
  algorithm :: string
  access_token_expire_minutes :: int

definition settings :: Settings where
  "settings =
     \<lparr> app_name = ''Trade Opportunities API'',
       gemini_api_key = None,
       allowed_sectors =
         [''pharmaceuticals'', ''technology'', ''agriculture'',
          ''automobile'', ''banking'', ''renewable-energy'',
          ''real-estate'', ''manufacturing'', ''retail''],
       rate_limit_requests = 10,
       rate_limit_period = 60,
       secret_key = ''your-secret-key-change-in-production'',
       algorithm = ''HS256'',
       access_token_expire_minutes = 30 \<rparr>"

section \<open>Rate limiter (app/rate_limit.py)\<close>

text \<open>
  A \<open>datetime\<close> is modelled by its number of microseconds, the resolution of Python's
  \<open>datetime\<close>; \<open>timedelta(seconds=n)\<close> is then \<open>n * 1000000\<close>. The reading of the
  clock, \<open>datetime.now()\<close>, is an explicit argument of every check.

  \<open>self.requests\<close> is a \<open>defaultdict(list)\<close>: a dictionary whose lookup of a missing
  key gives the empty list.
\<close>

type_synonym datetime = int

type_synonym requests = "string \<rightharpoonup> datetime list"

definition timedelta_seconds :: "int \<Rightarrow> int" where
  "timedelta_seconds n = n * 1000000"

definition defaultdict_get :: "requests \<Rightarrow> string \<Rightarrow> datetime list" where
  "defaultdict_get reqs key = (case reqs key of None \<Rightarrow> [] | Some v \<Rightarrow> v)"

text \<open>
  \<open>RateLimiter.is_rate_limited\<close>: the result is \<open>True\<close> when the request is denied.
  The purged list is stored back in both branches; \<open>now\<close> is appended only when the
  request is admitted.
\<close>

definition is_rate_limited ::
  "Settings \<Rightarrow> datetime \<Rightarrow> string \<Rightarrow> requests \<Rightarrow> bool \<times> requests" where
  "is_rate_limited cfg now key reqs =
     (let kept = filter (\<lambda>req_time. now - req_time < timedelta_seconds (rate_limit_period cfg))
                   (defaultdict_get reqs key);
          reqs1 = reqs(key \<mapsto> kept)
      in if int (length kept) \<ge> rate_limit_requests cfg then (True, reqs1)
         else (False, reqs1(key \<mapsto> kept @ [now])))"

text \<open>
  A sequence of checks, each with its clock reading and its key, threaded through the
  limiter's state; the results are returned in order with the final state.
\<close>

fun run_checks ::
  "Settings \<Rightarrow> (datetime \<times> string) list \<Rightarrow> requests \<Rightarrow> bool list \<times> requests" where
  "run_checks cfg [] reqs = ([], reqs)"
| "run_checks cfg ((now, key) # evs) reqs =
     (let (r, reqs1) = is_rate_limited cfg now key reqs;
          (rs, reqs2) = run_checks cfg evs reqs1
      in (r # rs, reqs2))"

text \<open>Python's \<open>str\<close> of an integer: decimal digits, with a minus sign when negative.\<close>

fun str_nat :: "nat \<Rightarrow> string" where
  "str_nat n =
     (if n < 10 then [''0123456789'' ! n]
      else str_nat (n div 10) @ [''0123456789'' ! (n mod 10)])"

declare str_nat.simps [simp del]

definition str_int :: "int \<Rightarrow> string" where
  "str_int i = (if i < 0 then CHR ''-'' # str_nat (nat (- i)) else str_nat (nat i))"

text \<open>
  \<open>HTTPException\<close> of the web framework: status code, detail message and headers.
\<close>

record HTTPException =
  status_code :: nat
  detail :: string
  headers :: "(string \<times> string) list"

text \<open>
  \<open>check_rate_limit\<close>: raises (returns \<open>Inl\<close>) the 429 rejection when the limiter denies,
  and returns normally otherwise. The limiter's state is updated in both cases.
\<close>

definition check_rate_limit ::
  "Settings \<Rightarrow> datetime \<Rightarrow> string \<Rightarrow> requests \<Rightarrow> (HTTPException + unit) \<times> requests" where
  "check_rate_limit cfg now user_identifier reqs =
     (let (limited, reqs1) = is_rate_limited cfg now user_identifier reqs
      in if limited then
           (Inl \<lparr> status_code = 429,
                  detail = ''Rate limit exceeded. Try again in ''
                           @ str_int (rate_limit_period cfg) @ '' seconds.'',
                  headers = [(''Retry-After'', str_int (rate_limit_period cfg))] \<rparr>,
            reqs1)
         else (Inr (), reqs1))"

section \<open>Python values used by the application\<close>

text \<open>
  An exception is a value. \<open>Exception cls msg\<close> is an instance of the class named
  \<open>cls\<close>, a subclass of \<open>Exception\<close>, and \<open>msg\<close> is the text \<open>str(e)\<close> gives.
  \<open>BaseException cls msg\<close> is an instance of a class that derives from \<open>BaseException\<close>
  but not from \<open>Exception\<close> (\<open>KeyboardInterrupt\<close>, \<open>SystemExit\<close>, \<open>GeneratorExit\<close>):
  a handler \<open>except Exception\<close> does not catch it. \<open>HTTPError\<close> is the web framework's
  \<open>HTTPException\<close>, a subclass of \<open>Exception\<close>, with its fields. A function that may
  raise returns \<open>py_exception + 'a\<close>, with \<open>Inl\<close> for the raise.
\<close>

datatype py_exception =
    Exception string string
  | BaseException string string
  | HTTPError HTTPException

fun str_exc :: "py_exception \<Rightarrow> string" where
  "str_exc (Exception cls msg) = msg"
| "str_exc (BaseException cls msg) = msg"
| "str_exc (HTTPError h) = str_nat (status_code h) @ '': '' @ detail h"

text \<open>\<open>isinstance(e, Exception)\<close>: what a handler \<open>except Exception\<close> catches.\<close>

fun isinstance_Exception :: "py_exception \<Rightarrow> bool" where
  "isinstance_Exception (Exception cls msg) = True"
| "isinstance_Exception (BaseException cls msg) = False"
| "isinstance_Exception (HTTPError h) = True"

definition and_then :: "'e + 'a \<Rightarrow> ('a \<Rightarrow> 'e + 'b) \<Rightarrow> 'e + 'b" where
  "and_then m f = (case m of Inl e \<Rightarrow> Inl e | Inr x \<Rightarrow> f x)"

text \<open>
  Strings are sequences of \<open>char\<close>; text outside ASCII is held as its UTF-8 bytes, so
  that concatenation, \<open>in\<close>, \<open>split\<close> and \<open>join\<close> are those of the byte sequences.
  Python's case mappings follow the Unicode character database. On a string of ASCII
  characters they map the letters A to Z and a to z and nothing else, and are computed
  below; on any other string they are the functions of the argument \<open>ucd\<close>, which stands
  for the database and is not embedded.
\<close>

record unicode_database =
  ucd_lower :: "string \<Rightarrow> string"
  ucd_title :: "string \<Rightarrow> string"

definition is_ascii :: "string \<Rightarrow> bool" where
  "is_ascii s = list_all (\<lambda>c. (of_char c :: nat) < 128) s"

definition ascii_uppercase :: string where
  "ascii_uppercase = ''ABCDEFGHIJKLMNOPQRSTUVWXYZ''"

definition ascii_lowercase :: string where
  "ascii_lowercase = ''abcdefghijklmnopqrstuvwxyz''"

definition char_lower :: "char \<Rightarrow> char" where
  "char_lower c = (case map_of (zip ascii_uppercase ascii_lowercase) c of None \<Rightarrow> c | Some d \<Rightarrow> d)"

definition char_upper :: "char \<Rightarrow> char" where
  "char_upper c = (case map_of (zip ascii_lowercase ascii_uppercase) c of None \<Rightarrow> c | Some d \<Rightarrow> d)"

text \<open>\<open>s.lower()\<close>.\<close>

definition str_lower :: "unicode_database \<Rightarrow> string \<Rightarrow> string" where
  "str_lower ucd s = (if is_ascii s then map char_lower s else ucd_lower ucd s)"

text \<open>
  \<open>s.title()\<close>. In an ASCII string a letter that follows a letter is lowered and a
  letter that follows anything else (or starts the string) is raised; the flag is Python's
  \<open>previous_is_cased\<close>.
\<close>

fun title_from :: "bool \<Rightarrow> string \<Rightarrow> string" where
  "title_from previous_is_cased [] = []"
| "title_from previous_is_cased (c # cs) =
     (if c \<in> set ascii_lowercase then
        (if previous_is_cased then c else char_upper c) # title_from True cs
      else if c \<in> set ascii_uppercase then
        (if previous_is_cased then char_lower c else c) # title_from True cs
      else c # title_from False cs)"

definition str_title :: "unicode_database \<Rightarrow> string \<Rightarrow> string" where
  "str_title ucd s = (if is_ascii s then title_from False s else ucd_title ucd s)"

text \<open>\<open>s.startswith(p)\<close> and \<open>sub in s\<close>.\<close>

definition startswith :: "string \<Rightarrow> string \<Rightarrow> bool" where
  "startswith s p = (take (length p) s = p)"

fun str_in :: "string \<Rightarrow> string \<Rightarrow> bool" where
  "str_in sub [] = (sub = [])"
| "str_in sub (c # cs) = (startswith (c # cs) sub \<or> str_in sub cs)"

text \<open>
  The leftmost occurrence of \<open>sep\<close> in \<open>s\<close>: the text before it and the text after it.
\<close>

fun find_first :: "string \<Rightarrow> string \<Rightarrow> (string \<times> string) option" where
  "find_first sep [] = (if sep = [] then Some ([], []) else None)"
| "find_first sep (c # cs) =
     (if startswith (c # cs) sep then Some ([], drop (length sep) (c # cs))
      else map_option (\<lambda>(before, after). (c # before, after)) (find_first sep cs))"

text \<open>
  \<open>s.split(sep)\<close> cuts at the non-overlapping occurrences of \<open>sep\<close> from the left;
  Python raises \<open>ValueError\<close> for the empty separator, which \<open>str_split\<close> checks before
  it cuts.
\<close>

function split_nonempty :: "string \<Rightarrow> string \<Rightarrow> string list" where
  "split_nonempty s sep =
     (case find_first sep s of
        None \<Rightarrow> [s]
      | Some (before, after) \<Rightarrow>
          if sep = [] then [s] else before # split_nonempty after sep)"
  by pat_completeness auto
termination
proof (relation "measure (\<lambda>(s, sep). length s)")
  show "wf (measure (\<lambda>(s, sep). length s))" by simp
next
  fix s sep :: string and x2 x y
  assume found: "find_first sep s = Some x2" and x2: "(x, y) = x2" and ne: "sep \<noteq> []"
  have shorter: "find_first sep t = Some (a, b) \<Longrightarrow> length b + length sep \<le> length t"
    for t a b
  proof (induction t arbitrary: a)
    case Nil
    then show ?case by (simp split: if_splits)
  next
    case (Cons c cs)
    show ?case
    proof (cases "startswith (c # cs) sep")
      case True
      then have "min (length (c # cs)) (length sep) = length sep"
        unfolding startswith_def by (metis length_take)
      then have "length sep \<le> length (c # cs)" by linarith
      with True Cons.prems show ?thesis by auto
    next
      case False
      with Cons.prems obtain a' where "find_first sep cs = Some (a', b)" by auto
      from Cons.IH[OF this] show ?thesis by simp
    qed
  qed
  from found x2 have "find_first sep s = Some (x, y)" by simp
  from shorter[OF this] ne have "length y < length s"
    by (cases sep) auto
  then show "((y, sep), (s, sep)) \<in> measure (\<lambda>(s, sep). length s)" by simp
qed

declare split_nonempty.simps [simp del]

definition str_split :: "string \<Rightarrow> string \<Rightarrow> py_exception + string list" where
  "str_split s sep =
     (if sep = [] then Inl (Exception ''ValueError'' ''empty separator'')
      else Inr (split_nonempty s sep))"

text \<open>\<open>xs[i]\<close> for a non-negative index: \<open>IndexError\<close> when out of range.\<close>

definition list_index :: "'a list \<Rightarrow> nat \<Rightarrow> py_exception + 'a" where
  "list_index xs i =
     (if i < length xs then Inr (xs ! i)
      else Inl (Exception ''IndexError'' ''list index out of range''))"

text \<open>\<open>sep.join(xs)\<close>.\<close>

fun str_join :: "string \<Rightarrow> string list \<Rightarrow> string" where
  "str_join sep [] = []"
| "str_join sep [x] = x"
| "str_join sep (x # y # ys) = x @ sep @ str_join sep (y # ys)"

text \<open>\<open>d.get(key, default)\<close> on a dictionary held as an association list.\<close>

definition dict_get :: "('k \<times> 'v) list \<Rightarrow> 'k \<Rightarrow> 'v \<Rightarrow> 'v" where
  "dict_get d key dflt = (case map_of d key of None \<Rightarrow> dflt | Some v \<Rightarrow> v)"

definition newline :: string where
  "newline = [CHR 0x0A]"

text \<open>
  \<open>print\<close> writes to the standard output of the process, which is outside the program:
  it is an argument \<open>print\<close> of the functions that call it, giving for the text printed
  either a normal return or the exception raised by the write.
\<close>

type_synonym print_fn = "string \<Rightarrow> py_exception + unit"

section \<open>Market data search (app/models.py, app/search.py)\<close>

record MarketData =
  title :: string
  source :: string
  snippet :: string
  date :: string
  url :: "string option"

text \<open>
  A field of a raw search result is a string, \<open>None\<close>, or some other Python value; for
  the last, \<open>POther\<close> carries what the validation of a string field makes of it:
  \<open>None\<close> when it is rejected, the string it is converted to otherwise.
\<close>

datatype pyval = PStr string | PNone | POther "string option"

type_synonym raw_result = "(string \<times> pyval) list"

text \<open>
  Validation of a field annotated \<open>str\<close> and of one annotated \<open>Optional[str]\<close>. The
  text of the library's validation error is not modelled: the exception carries the name
  of the field.
\<close>

fun validate_str :: "string \<Rightarrow> pyval \<Rightarrow> py_exception + string" where
  "validate_str field (PStr s) = Inr s"
| "validate_str field PNone = Inl (Exception ''ValidationError'' field)"
| "validate_str field (POther None) = Inl (Exception ''ValidationError'' field)"
| "validate_str field (POther (Some s)) = Inr s"

fun validate_optional_str :: "string \<Rightarrow> pyval \<Rightarrow> py_exception + string option" where
  "validate_optional_str field PNone = Inr None"
| "validate_optional_str field v = and_then (validate_str field v) (\<lambda>s. Inr (Some s))"

text \<open>The constructor call \<open>MarketData(title=..., source=..., snippet=..., date=..., url=...)\<close>.\<close>

definition new_MarketData ::
  "pyval \<Rightarrow> pyval \<Rightarrow> pyval \<Rightarrow> pyval \<Rightarrow> pyval \<Rightarrow> py_exception + MarketData" where
  "new_MarketData t s b d u =
     and_then (validate_str ''title'' t) (\<lambda>t'.
     and_then (validate_str ''source'' s) (\<lambda>s'.
     and_then (validate_str ''snippet'' b) (\<lambda>b'.
     and_then (validate_str ''date'' d) (\<lambda>d'.
     and_then (validate_optional_str ''url'' u) (\<lambda>u'.
       Inr \<lparr> title = t', source = s', snippet = b', date = d', url = u' \<rparr>)))))"

text \<open>\<open>get_fallback_data\<close>: the dictionary of canned records and its \<open>get\<close> with a default.\<close>

definition fallback_data :: "(string \<times> MarketData list) list" where
  "fallback_data =
     [(''pharmaceuticals'',
        [\<lparr> title = ''Indian Pharma Sector Growth Outlook 2024'',
           source = ''Industry Report'',
           snippet = ''Indian pharmaceutical sector expected to grow at 8-10% CAGR driven by exports and domestic demand.'',
           date = ''2024'',
           url = Some '''' \<rparr>]),
      (''technology'',
        [\<lparr> title = ''India Tech Sector: AI and Digital Transformation'',
           source = ''Tech Analysis'',
           snippet = ''Technology sector in India seeing increased investment in AI, cloud computing, and digital services.'',
           date = ''2024'',
           url = Some '''' \<rparr>]),
      (''agriculture'',
        [\<lparr> title = ''Agricultural Sector Modernization Trends'',
           source = ''Agri Report'',
           snippet = ''Precision farming and organic exports driving growth in Indian agriculture sector.'',
           date = ''2024'',
           url = Some '''' \<rparr>])]"

definition get_fallback_data :: "unicode_database \<Rightarrow> string \<Rightarrow> MarketData list" where
  "get_fallback_data ucd sector =
     dict_get fallback_data sector
       [\<lparr> title = str_title ucd sector @ '' Sector Analysis'',
          source = ''Market Intelligence'',
          snippet = ''Current trends and opportunities in the '' @ sector @ '' sector.'',
          date = ''2024'',
          url = Some '''' \<rparr>]"

text \<open>
  The loop of \<open>search_market_data\<close> over the raw results: one record appended per
  result, stopping at the first constructor call that raises.
\<close>

fun append_results :: "raw_result list \<Rightarrow> MarketData list \<Rightarrow> py_exception + MarketData list" where
  "append_results [] market_data = Inr market_data"
| "append_results (result # results) market_data =
     and_then
       (new_MarketData
          (dict_get result ''title'' (PStr ''''))
          (dict_get result ''source'' (PStr ''Unknown''))
          (dict_get result ''body'' (PStr ''''))
          (dict_get result ''date'' (PStr ''Recent''))
          (dict_get result ''href'' (PStr '''')))
       (\<lambda>m. append_results results (market_data @ [m]))"

text \<open>
  \<open>search_market_data\<close>. The search provider is the argument \<open>ddgs_text\<close>: given the
  query and \<open>max_results\<close> it raises or returns the list of raw results. The body of the
  \<open>try\<close> is \<open>search_try\<close>. The handler \<open>except Exception\<close> catches the instances of
  \<open>Exception\<close> only: it prints, and when the print returns it replaces whatever was
  collected by the fallback data. Any other exception, and one raised by the print,
  leaves the function.
\<close>

definition search_try ::
  "(string \<Rightarrow> int \<Rightarrow> py_exception + raw_result list) \<Rightarrow> string \<Rightarrow> int
     \<Rightarrow> py_exception + MarketData list" where
  "search_try ddgs_text sector max_results =
     and_then
       (ddgs_text (sector @ '' sector India market news trends 2024 latest updates'') max_results)
       (\<lambda>results. append_results results [])"

definition search_market_data ::
  "unicode_database \<Rightarrow> print_fn \<Rightarrow> (string \<Rightarrow> int \<Rightarrow> py_exception + raw_result list)
     \<Rightarrow> string \<Rightarrow> int \<Rightarrow> py_exception + MarketData list" where
  "search_market_data ucd print ddgs_text sector max_results =
     (case search_try ddgs_text sector max_results of
        Inl e \<Rightarrow>
          if isinstance_Exception e then
            and_then (print (''Search failed: '' @ str_exc e))
              (\<lambda>_. Inr (get_fallback_data ucd sector))
          else Inl e
      | Inr market_data \<Rightarrow> Inr market_data)"

section \<open>Analysis (app/analysis.py)\<close>

text \<open>
  The analysis dictionary, restricted to the four keys the program reads. Each key is
  absent (\<open>None\<close>) or holds a value of the type the prompt's schema gives it; a trade
  opportunity is itself a dictionary from keys to strings. \<open>get_default\<close> is the
  lookup \<open>d.get(key, default)\<close> on such a key.
\<close>

type_synonym opportunity_dict = "(string \<times> string) list"

datatype analysis_dict = AnalysisDict
  (get_summary: "string option")
  (get_market_trends: "string list option")
  (get_trade_opportunities: "opportunity_dict list option")
  (get_risks: "string list option")

definition get_default :: "'a option \<Rightarrow> 'a \<Rightarrow> 'a" where
  "get_default v dflt = (case v of None \<Rightarrow> dflt | Some x \<Rightarrow> x)"

text \<open>
  \<open>initialize_gemini\<close>. The test is the truth value of \<open>settings.gemini_api_key\<close>:
  \<open>None\<close> and the empty string are false. With a key the client library is configured
  before \<open>True\<close> is returned; the library's call is the argument \<open>configure\<close>, which
  returns or raises.
\<close>

definition initialize_gemini ::
  "Settings \<Rightarrow> (string \<Rightarrow> py_exception + unit) \<Rightarrow> py_exception + bool" where
  "initialize_gemini cfg configure =
     (case gemini_api_key cfg of
        None \<Rightarrow> Inr False
      | Some api_key \<Rightarrow>
          if api_key = [] then Inr False
          else and_then (configure api_key) (\<lambda>_. Inr True))"

definition generate_mock_analysis :: "string \<Rightarrow> MarketData list \<Rightarrow> analysis_dict" where
  "generate_mock_analysis sector market_data =
     AnalysisDict
       (Some (''The '' @ sector @ '' sector in India shows promising growth potential with increasing digital adoption and government support.''))
       (Some [''Growing demand in '' @ sector @ '' services'',
              ''Increased foreign investment'',
              ''Government policy support'',
              ''Technology integration'',
              ''Export opportunities''])
       (Some [[(''opportunity'', ''Invest in leading '' @ sector @ '' companies''),
               (''reasoning'', ''Market leaders showing consistent growth and innovation''),
               (''risk_level'', ''medium''),
               (''time_horizon'', ''medium-term'')],
              [(''opportunity'', ''Sector-specific ETFs''),
               (''reasoning'', ''Diversified exposure with lower risk''),
               (''risk_level'', ''low''),
               (''time_horizon'', ''long-term'')]])
       (Some [''Regulatory changes'',
              ''Market volatility'',
              ''Global economic factors'',
              ''Competition intensity''])"

text \<open>
  The extraction of the JSON text from the model's response, with Python's \<open>in\<close>,
  \<open>split\<close> and indexing; an index out of range would raise.
\<close>

definition extract_json :: "string \<Rightarrow> py_exception + string" where
  "extract_json response_text =
     (if str_in ''```json'' response_text then
        and_then (str_split response_text ''```json'') (\<lambda>parts.
        and_then (list_index parts 1) (\<lambda>part.
        and_then (str_split part ''```'') (\<lambda>pieces. list_index pieces 0)))
      else if str_in ''```'' response_text then
        and_then (str_split response_text ''```'') (\<lambda>parts.
        and_then (list_index parts 1) (\<lambda>part.
        and_then (str_split part ''```'') (\<lambda>pieces. list_index pieces 0)))
      else Inr response_text)"

text \<open>
  \<open>analyze_with_gemini\<close>. The call of \<open>initialize_gemini\<close> is outside the \<open>try\<close>: what
  it raises leaves the function. The collaborators are arguments. \<open>generate_content\<close>
  stands for building the prompt from the sector and the market data, the call of the model
  and the reading of \<open>response.text\<close>: it raises or gives the response text.
  \<open>json_loads\<close> is the JSON parser: it raises or gives the parsed dictionary; a parse
  result that is not a dictionary of the above shape is outside the model. The body of
  the \<open>try\<close> is \<open>analyze_try\<close>. The handler \<open>except Exception\<close> catches the instances
  of \<open>Exception\<close> only: it prints, and when the print returns the analysis is the mock
  analysis.
\<close>

definition analyze_try ::
  "(string \<Rightarrow> MarketData list \<Rightarrow> py_exception + string)
     \<Rightarrow> (string \<Rightarrow> py_exception + analysis_dict)
     \<Rightarrow> string \<Rightarrow> MarketData list \<Rightarrow> py_exception + analysis_dict" where
  "analyze_try generate_content json_loads sector market_data =
     and_then (generate_content sector market_data) (\<lambda>response_text.
     and_then (extract_json response_text) (\<lambda>json_str. json_loads json_str))"

definition analyze_with_gemini ::
  "Settings \<Rightarrow> (string \<Rightarrow> py_exception + unit) \<Rightarrow> print_fn
     \<Rightarrow> (string \<Rightarrow> MarketData list \<Rightarrow> py_exception + string)
     \<Rightarrow> (string \<Rightarrow> py_exception + analysis_dict)
     \<Rightarrow> string \<Rightarrow> MarketData list \<Rightarrow> py_exception + analysis_dict" where
  "analyze_with_gemini cfg configure print generate_content json_loads sector market_data =
     and_then (initialize_gemini cfg configure) (\<lambda>initialized.
       if \<not> initialized then Inr (generate_mock_analysis sector market_data)
       else case analyze_try generate_content json_loads sector market_data of
              Inl e \<Rightarrow>
                if isinstance_Exception e then
                  and_then (print (''Gemini analysis failed: '' @ str_exc e))
                    (\<lambda>_. Inr (generate_mock_analysis sector market_data))
                else Inl e
            | Inr analysis \<Rightarrow> Inr analysis)"




text \<open>
  \<open>generate_markdown_report\<close>. The formatted clock reading is the argument \<open>timestamp\<close>.
  Each \<open>for\<close> loop appends to \<open>markdown\<close> and is a left fold; \<open>enumerate(..., 1)\<close> pairs
  the opportunities with 1, 2, ... The warning sign and its variation selector are held as
  their UTF-8 bytes.
\<close>

definition warning_sign :: string where
  "warning_sign = [CHR 0xE2, CHR 0x9A, CHR 0xA0, CHR 0xEF, CHR 0xB8, CHR 0x8F]"

definition enumerate_from :: "nat \<Rightarrow> 'a list \<Rightarrow> (nat \<times> 'a) list" where
  "enumerate_from start xs = zip [start ..< start + length xs] xs"

definition generate_markdown_report ::
  "unicode_database \<Rightarrow> string \<Rightarrow> string \<Rightarrow> analysis_dict \<Rightarrow> MarketData list \<Rightarrow> string" where
  "generate_markdown_report ucd timestamp sector analysis market_data =
     (let markdown0 =
            ''# Market Analysis Report: '' @ str_title ucd sector @ '' Sector'' @ newline
            @ ''**Generated:** '' @ timestamp @ newline
            @ newline
            @ ''## Executive Summary'' @ newline
            @ get_default (get_summary analysis) '''' @ newline
            @ newline
            @ ''## Market Trends'' @ newline;
          markdown1 =
            foldl (\<lambda>markdown trend. markdown @ ''- '' @ trend @ newline)
              markdown0 (get_default (get_market_trends analysis) []);
          markdown2 = markdown1 @ newline @ ''## Key Market Information'' @ newline;
          markdown3 =
            foldl (\<lambda>markdown data.
                     markdown
                     @ (''### '' @ title data @ newline)
                     @ (''**Source:** '' @ source data @ '' | **Date:** '' @ date data @ newline)
                     @ (snippet data @ newline @ newline))
              markdown2 (take 5 market_data);
          markdown4 = markdown3 @ ''## Trade Opportunities'' @ newline;
          markdown5 =
            foldl (\<lambda>markdown (i, opp).
                     markdown
                     @ (''### Opportunity '' @ str_nat i @ '': ''
                          @ dict_get opp ''opportunity'' '''' @ newline)
                     @ (''- **Reasoning:** '' @ dict_get opp ''reasoning'' '''' @ newline)
                     @ (''- **Risk Level:** '' @ str_title ucd (dict_get opp ''risk_level'' '''') @ newline)
                     @ (''- **Time Horizon:** '' @ dict_get opp ''time_horizon'' '''' @ newline
                          @ newline))
              markdown4 (enumerate_from 1 (get_default (get_trade_opportunities analysis) []));
          markdown6 = markdown5 @ ''## Potential Risks'' @ newline;
          markdown7 =
            foldl (\<lambda>markdown risk. markdown @ ''- '' @ warning_sign @ '' '' @ risk @ newline)
              markdown6 (get_default (get_risks analysis) []);
          markdown8 = markdown7 @ newline @ ''---'' @ newline
      in markdown8
         @ ''*Report generated by Trade Opportunities API. This is for informational purposes only.*'')"

section \<open>The application (app/auth.py, app/models.py, app/main.py)\<close>

subsection \<open>Authentication of the bearer token\<close>

record User =
  username :: string
  disabled :: "bool option"

record user_dict =
  user_dict_username :: string
  user_dict_password :: string
  user_dict_disabled :: bool

definition fake_users_db :: "(string \<times> user_dict) list" where
  "fake_users_db =
     [(''guest'',
        \<lparr> user_dict_username = ''guest'', user_dict_password = ''guest'',
          user_dict_disabled = False \<rparr>),
      (''trader'',
        \<lparr> user_dict_username = ''trader'', user_dict_password = ''trading123'',
          user_dict_disabled = False \<rparr>)]"

definition get_user :: "string \<Rightarrow> User option" where
  "get_user name =
     (case map_of fake_users_db name of
        None \<Rightarrow> None
      | Some entry \<Rightarrow>
          Some \<lparr> username = user_dict_username entry,
                 disabled = Some (user_dict_disabled entry) \<rparr>)"

definition credentials_exception :: HTTPException where
  "credentials_exception =
     \<lparr> status_code = 401,
       detail = ''Could not validate credentials'',
       headers = [(''WWW-Authenticate'', ''Bearer'')] \<rparr>"

text \<open>
  \<open>get_current_user\<close>. The token library is the argument \<open>jwt_decode\<close>: for a token it
  raises, or gives the \<open>sub\<close> entry of the decoded payload (\<open>None\<close> when the payload has
  none). The library's errors are the instances of \<open>JWTError\<close>, which the function
  replaces by its credentials exception; any other exception passes through.
\<close>

fun isinstance_JWTError :: "py_exception \<Rightarrow> bool" where
  "isinstance_JWTError (Exception cls msg) =
     (cls \<in> set [''JWTError'', ''ExpiredSignatureError'', ''JWTClaimsError''])"
| "isinstance_JWTError (BaseException cls msg) = False"
| "isinstance_JWTError (HTTPError h) = False"

definition get_current_user ::
  "(string \<Rightarrow> py_exception + string option) \<Rightarrow> string \<Rightarrow> py_exception + User" where
  "get_current_user jwt_decode token =
     (case jwt_decode token of
        Inl e \<Rightarrow> if isinstance_JWTError e then Inl (HTTPError credentials_exception) else Inl e
      | Inr None \<Rightarrow> Inl (HTTPError credentials_exception)
      | Inr (Some sub) \<Rightarrow>
          (case get_user sub of
             None \<Rightarrow> Inl (HTTPError credentials_exception)
           | Some user \<Rightarrow> Inr user))"

subsection \<open>The response model\<close>

record TradeOpportunity =
  opportunity :: string
  reasoning :: string
  risk_level :: string
  time_horizon :: string

text \<open>
  The fields \<open>sector\<close> and \<open>timestamp\<close> of \<open>AnalysisResponse\<close> carry the record's name
  here, the plain names being those of the functions' arguments.
\<close>

record AnalysisResponse =
  response_sector :: string
  response_timestamp :: string
  summary :: string
  market_trends :: "string list"
  key_news :: "MarketData list"
  trade_opportunities :: "TradeOpportunity list"
  risks :: "string list"
  markdown_report :: string

text \<open>
  \<open>TradeOpportunity(**opp)\<close>: the four fields are required and any further key is
  ignored. The text of the validation error is not modelled: the exception carries the
  name of the model.
\<close>

definition new_TradeOpportunity :: "opportunity_dict \<Rightarrow> py_exception + TradeOpportunity" where
  "new_TradeOpportunity opp =
     (case (map_of opp ''opportunity'', map_of opp ''reasoning'',
            map_of opp ''risk_level'', map_of opp ''time_horizon'') of
        (Some a, Some b, Some c, Some d) \<Rightarrow>
          Inr \<lparr> opportunity = a, reasoning = b, risk_level = c, time_horizon = d \<rparr>
      | _ \<Rightarrow> Inl (Exception ''ValidationError'' ''TradeOpportunity''))"

text \<open>The list comprehension over the opportunities: it stops at the first that raises.\<close>

fun new_TradeOpportunities ::
  "opportunity_dict list \<Rightarrow> py_exception + TradeOpportunity list" where
  "new_TradeOpportunities [] = Inr []"
| "new_TradeOpportunities (opp # opps) =
     and_then (new_TradeOpportunity opp) (\<lambda>t.
     and_then (new_TradeOpportunities opps) (\<lambda>ts. Inr (t # ts)))"

subsection \<open>The endpoint\<close>

text \<open>
  What lies outside the program is gathered in one record: the Unicode database, the
  standard output, the configuration call of the model's client library, the token library,
  the search provider, the model, the JSON parser, and the readings of the clock, in the
  order of the calls of \<open>datetime.now()\<close>: in the rate limiter, in the report (already
  formatted by \<open>strftime\<close>), in the response and in the session (both already formatted
  by \<open>isoformat\<close>). The logger is taken not to raise.
\<close>

record environment =
  env_ucd :: unicode_database
  env_print :: print_fn
  env_configure :: "string \<Rightarrow> py_exception + unit"
  env_jwt_decode :: "string \<Rightarrow> py_exception + string option"
  env_ddgs_text :: "string \<Rightarrow> int \<Rightarrow> py_exception + raw_result list"
  env_generate_content :: "string \<Rightarrow> MarketData list \<Rightarrow> py_exception + string"
  env_json_loads :: "string \<Rightarrow> py_exception + analysis_dict"
  env_now :: datetime
  env_strftime :: string
  env_isoformat :: string
  env_isoformat_session :: string

text \<open>
  The state of the process: the rate limiter's dictionary, the session dictionary and the
  lines given to the logger. An entry of \<open>sessions\<close> is written at login with its first two
  fields; the endpoint sets the other two.
\<close>

record session =
  last_login :: string
  access_token :: string
  last_analysis :: "string option"
  analysis_count :: "int option"

record app_state =
  rate_limiter_requests :: requests
  sessions :: "string \<rightharpoonup> session"
  logged :: "string list"

text \<open>\<open>request.client\<close> is \<open>None\<close> or has a \<open>host\<close>.\<close>

record Request =
  client_host :: "string option"

text \<open>
  The body of the \<open>try\<close> of \<open>analyze_sector\<close> after the logger's call, up to the response
  object.
\<close>

definition analyze_sector_try ::
  "Settings \<Rightarrow> environment \<Rightarrow> string \<Rightarrow> py_exception + AnalysisResponse" where
  "analyze_sector_try cfg env sector_lower =
     and_then
       (search_market_data (env_ucd env) (env_print env) (env_ddgs_text env) sector_lower 10)
       (\<lambda>market_data.
     and_then
       (analyze_with_gemini cfg (env_configure env) (env_print env) (env_generate_content env)
          (env_json_loads env) sector_lower market_data)
       (\<lambda>analysis.
     let report = generate_markdown_report (env_ucd env) (env_strftime env) sector_lower
                    analysis market_data
     in and_then (new_TradeOpportunities (get_default (get_trade_opportunities analysis) []))
       (\<lambda>opportunities.
          Inr \<lparr> response_sector = sector_lower,
                response_timestamp = env_isoformat env,
                summary = get_default (get_summary analysis) '''',
                market_trends = get_default (get_market_trends analysis) [],
                key_news = take 5 market_data,
                trade_opportunities = opportunities,
                risks = get_default (get_risks analysis) [],
                markdown_report = report \<rparr>)))"

text \<open>
  \<open>analyze_sector\<close>, called with the path parameter, the request and the bearer token that
  the framework has extracted. It gives the response object or the exception raised, and
  the state of the process afterwards. The validation of the sector comes first; then the
  authentication, whose every failure is replaced by the 401 exception; then the rate limit
  check, outside the \<open>try\<close>; then the \<open>try\<close>, whose handler \<open>except Exception\<close> logs and
  raises the 500 exception.
\<close>

definition session_update :: "string \<Rightarrow> session \<Rightarrow> session" where
  "session_update now_iso s =
     s \<lparr> last_analysis := Some now_iso,
         analysis_count := Some (get_default (analysis_count s) 0 + 1) \<rparr>"

definition analyze_sector ::
  "Settings \<Rightarrow> environment \<Rightarrow> string \<Rightarrow> Request \<Rightarrow> string \<Rightarrow> app_state
     \<Rightarrow> (py_exception + AnalysisResponse) \<times> app_state" where
  "analyze_sector cfg env sector request credentials st =
     (let sector_lower = str_lower (env_ucd env) sector in
      if sector_lower \<notin> set (allowed_sectors cfg) then
        (Inl (HTTPError
           \<lparr> status_code = 400,
             detail = ''Sector not supported. Allowed sectors: ''
                      @ str_join '', '' (allowed_sectors cfg),
             headers = [] \<rparr>), st)
      else
        case get_current_user (env_jwt_decode env) credentials of
          Inl e \<Rightarrow>
            (Inl (HTTPError
               \<lparr> status_code = 401,
                 detail = ''Invalid authentication credentials'',
                 headers = [] \<rparr>), st)
        | Inr current_user \<Rightarrow>
            (case client_host request of
               None \<Rightarrow>
                 (Inl (Exception ''AttributeError''
                         ([CHR 0x27] @ ''NoneType'' @ [CHR 0x27] @ '' object has no attribute ''
                          @ [CHR 0x27] @ ''host'' @ [CHR 0x27])), st)
             | Some host \<Rightarrow>
                 let user_identifier = username current_user @ ''_'' @ host;
                     (checked, reqs1) =
                       check_rate_limit cfg (env_now env) user_identifier
                         (rate_limiter_requests st);
                     st1 = st \<lparr> rate_limiter_requests := reqs1 \<rparr>
                 in case checked of
                      Inl h \<Rightarrow> (Inl (HTTPError h), st1)
                    | Inr u \<Rightarrow>
                        let st2 = st1 \<lparr> logged := logged st1 @
                                    [''INFO Analyzing sector: '' @ sector_lower
                                     @ '' for user: '' @ username current_user] \<rparr>
                        in case analyze_sector_try cfg env sector_lower of
                             Inr response_data \<Rightarrow>
                               (Inr response_data,
                                (case sessions st2 (username current_user) of
                                   None \<Rightarrow> st2
                                 | Some s \<Rightarrow>
                                     st2 \<lparr> sessions := (sessions st2)
                                       (username current_user \<mapsto>
                                          session_update (env_isoformat_session env) s) \<rparr>))
                           | Inl e \<Rightarrow>
                               if isinstance_Exception e then
                                 (Inl (HTTPError
                                    \<lparr> status_code = 500,
                                      detail = ''Analysis failed: '' @ str_exc e,
                                      headers = [] \<rparr>),
                                  st2 \<lparr> logged := logged st2 @
                                    [''ERROR Error analyzing sector '' @ sector @ '': ''
                                     @ str_exc e] \<rparr>)
                               else (Inl e, st2)))"

text \<open>
  \<open>http_exception_handler\<close>, registered for \<open>HTTPException\<close>: the response the client
  receives for such an exception. It is built from the status code and the detail; no
  \<open>headers\<close> argument is given to \<open>JSONResponse\<close>, so the response has no header beyond
  those the response class sets for its own body.
\<close>

record JSONResponse =
  response_status_code :: nat
  response_content :: "(string \<times> string) list"
  response_headers :: "(string \<times> string) list"

definition http_exception_handler :: "Request \<Rightarrow> HTTPException \<Rightarrow> JSONResponse" where
  "http_exception_handler request exc =
     \<lparr> response_status_code = status_code exc,
       response_content = [(''detail'', detail exc)],
       response_headers = [] \<rparr>"

section \<open>Properties of the rate limiter\<close>

lemma defaultdict_get_upd_same [simp]: "defaultdict_get (reqs(k \<mapsto> v)) k = v"
  by (simp add: defaultdict_get_def)

lemma defaultdict_get_upd_other [simp]:
  "k' \<noteq> k \<Longrightarrow> defaultdict_get (reqs(k \<mapsto> v)) k' = defaultdict_get reqs k'"
  by (simp add: defaultdict_get_def)

lemma is_rate_limited_other:
  "k' \<noteq> k \<Longrightarrow> snd (is_rate_limited cfg now k reqs) k' = reqs k'"
  by (simp add: is_rate_limited_def Let_def)

lemma is_rate_limited_fst:
  "fst (is_rate_limited cfg now k reqs) \<longleftrightarrow>
     rate_limit_requests cfg \<le> int (length (filter
        (\<lambda>t. now - t < timedelta_seconds (rate_limit_period cfg)) (defaultdict_get reqs k)))"
  by (simp add: is_rate_limited_def Let_def)

lemma is_rate_limited_get:
  "defaultdict_get (snd (is_rate_limited cfg now k reqs)) k =
     (let kept = filter (\<lambda>t. now - t < timedelta_seconds (rate_limit_period cfg))
                   (defaultdict_get reqs k)
      in if rate_limit_requests cfg \<le> int (length kept) then kept else kept @ [now])"
  by (simp add: is_rate_limited_def Let_def)

lemma filter_all_kept:
  "\<forall>x\<in>set xs. P x \<Longrightarrow> filter P xs = xs"
  by (induction xs) auto

lemma run_checks_admit_all:
  assumes "\<forall>t\<in>set cur \<union> set ts. \<forall>u\<in>set ts. u - t < timedelta_seconds (rate_limit_period cfg)"
    and "int (length cur) + int (length ts) \<le> rate_limit_requests cfg"
    and "defaultdict_get reqs k = cur"
  shows "fst (run_checks cfg (map (\<lambda>t. (t, k)) ts) reqs) = replicate (length ts) False
       \<and> defaultdict_get (snd (run_checks cfg (map (\<lambda>t. (t, k)) ts) reqs)) k = cur @ ts"
  using assms
proof (induction ts arbitrary: cur reqs)
  case Nil
  then show ?case by simp
next
  case (Cons t ts)
  let ?W = "timedelta_seconds (rate_limit_period cfg)"
  let ?st = "is_rate_limited cfg t k reqs"
  have kept: "filter (\<lambda>x. t - x < ?W) cur = cur"
    using Cons.prems(1) by (intro filter_all_kept) auto
  have lt: "\<not> rate_limit_requests cfg \<le> int (length cur)"
    using Cons.prems(2) by simp
  have r: "fst ?st = False"
    using kept lt Cons.prems(3) by (simp add: is_rate_limited_fst)
  have g: "defaultdict_get (snd ?st) k = cur @ [t]"
    using kept lt Cons.prems(3) by (simp add: is_rate_limited_get)
  have ih: "fst (run_checks cfg (map (\<lambda>t. (t, k)) ts) (snd ?st)) = replicate (length ts) False
       \<and> defaultdict_get (snd (run_checks cfg (map (\<lambda>t. (t, k)) ts) (snd ?st))) k = (cur @ [t]) @ ts"
  proof (rule Cons.IH)
    show "\<forall>x\<in>set (cur @ [t]) \<union> set ts. \<forall>u\<in>set ts. u - x < ?W"
      using Cons.prems(1) by auto
    show "int (length (cur @ [t])) + int (length ts) \<le> rate_limit_requests cfg"
      using Cons.prems(2) by simp
    show "defaultdict_get (snd ?st) k = cur @ [t]" by (rule g)
  qed
  show ?case using r ih
    by (simp add: split_beta Let_def)
qed

lemma run_checks_append:
  "run_checks cfg (evs @ evs') reqs =
     (let (rs, reqs1) = run_checks cfg evs reqs;
          (rs', reqs2) = run_checks cfg evs' reqs1
      in (rs @ rs', reqs2))"
  by (induction evs arbitrary: reqs) (auto simp: split_beta Let_def)

lemma sorted_bounds:
  "sorted (ts::int list) \<Longrightarrow> t \<in> set ts \<Longrightarrow> hd ts \<le> t \<and> t \<le> last ts"
  by (induction ts) (auto simp: last_in_set dest: bspec)

text \<open>
  Claim C1. From a state holding no timestamps for a key, \<open>N + 1\<close> checks of that key
  whose clock readings are non-decreasing and span less than the window \<open>W\<close> give
  \<open>N\<close> admissions followed by one denial; the denied attempt is not recorded, so the
  key's sequence is exactly the \<open>N\<close> admitted readings. When the quota is positive
  and a later check comes at least \<open>W\<close> after every admitted reading, that check is
  admitted again and the key's sequence holds that reading only.
\<close>

theorem rate_limit_window:
  assumes empty: "defaultdict_get reqs k = []"
    and quota: "rate_limit_requests cfg = int N"
    and len: "length ts = N + 1"
    and mono: "sorted ts"
    and window: "last ts - hd ts < timedelta_seconds (rate_limit_period cfg)"
  shows "fst (run_checks cfg (map (\<lambda>t. (t, k)) ts) reqs) = replicate N False @ [True]
       \<and> defaultdict_get (snd (run_checks cfg (map (\<lambda>t. (t, k)) ts) reqs)) k = butlast ts
       \<and> (\<forall>t'. 0 < N \<and> (\<forall>t\<in>set (butlast ts). timedelta_seconds (rate_limit_period cfg) \<le> t' - t)
             \<longrightarrow> \<not> fst (is_rate_limited cfg t' k (snd (run_checks cfg (map (\<lambda>t. (t, k)) ts) reqs)))
               \<and> defaultdict_get (snd (is_rate_limited cfg t' k
                     (snd (run_checks cfg (map (\<lambda>t. (t, k)) ts) reqs)))) k = [t'])"
proof -
  let ?W = "timedelta_seconds (rate_limit_period cfg)"
  let ?ev = "\<lambda>ts. map (\<lambda>t. (t, k)) ts"
  have ne: "ts \<noteq> []" using len by auto
  then have split: "ts = butlast ts @ [last ts]" by simp
  have close: "u - t < ?W" if "t \<in> set ts" "u \<in> set ts" for t u
    using sorted_bounds[OF mono that(1)] sorted_bounds[OF mono that(2)] window by linarith
  have inb: "set (butlast ts) \<subseteq> set ts" by (auto dest: in_set_butlastD)
  have lb: "length (butlast ts) = N" using len by simp
  let ?mid = "run_checks cfg (?ev (butlast ts)) reqs"
  have first: "fst ?mid = replicate (length (butlast ts)) False
       \<and> defaultdict_get (snd ?mid) k = [] @ butlast ts"
  proof (rule run_checks_admit_all)
    show "\<forall>t\<in>set [] \<union> set (butlast ts). \<forall>u\<in>set (butlast ts). u - t < ?W"
      using close inb by auto
    show "int (length ([]::int list)) + int (length (butlast ts)) \<le> rate_limit_requests cfg"
      using lb quota by simp
    show "defaultdict_get reqs k = []" by (rule empty)
  qed
  have keep: "filter (\<lambda>x. last ts - x < ?W) (butlast ts) = butlast ts"
    using close inb ne by (intro filter_all_kept) auto
  let ?fin = "is_rate_limited cfg (last ts) k (snd ?mid)"
  have denied: "fst ?fin"
    using first keep lb quota by (simp add: is_rate_limited_fst)
  have stored: "defaultdict_get (snd ?fin) k = butlast ts"
    using first keep lb quota by (simp add: is_rate_limited_get)
  have whole: "run_checks cfg (?ev ts) reqs = (fst ?mid @ [fst ?fin], snd ?fin)"
  proof -
    have "run_checks cfg (?ev ts) reqs = run_checks cfg (?ev (butlast ts) @ [(last ts, k)]) reqs"
      using split by (metis (no_types, lifting) list.simps(8,9) map_append)
    then show ?thesis
      by (simp add: run_checks_append split_beta Let_def)
  qed
  have p1: "fst (run_checks cfg (?ev ts) reqs) = replicate N False @ [True]"
    using whole first denied lb by simp
  have p2: "defaultdict_get (snd (run_checks cfg (?ev ts) reqs)) k = butlast ts"
    using whole stored by simp
  have p3: "\<not> fst (is_rate_limited cfg t' k (snd (run_checks cfg (?ev ts) reqs)))
          \<and> defaultdict_get (snd (is_rate_limited cfg t' k (snd (run_checks cfg (?ev ts) reqs)))) k = [t']"
    if pos: "0 < N" and old: "\<forall>t\<in>set (butlast ts). ?W \<le> t' - t" for t'
  proof -
    have "filter (\<lambda>x. t' - x < ?W) (butlast ts) = []"
      using old by (auto simp: filter_empty_conv)
    then show ?thesis
      using p2 pos quota by (simp add: is_rate_limited_fst is_rate_limited_get)
  qed
  show ?thesis using p1 p2 p3 by blast
qed

theorem rate_limit_window_witness:
  "fst (run_checks settings
          (map (\<lambda>t. (t, ''guest_127.0.0.1''))
             [0, 1000000, 2000000, 3000000, 4000000, 5000000,
              6000000, 7000000, 8000000, 9000000, 59999999]) Map.empty)
     = replicate 10 False @ [True]
   \<and> \<not> fst (is_rate_limited settings 119999999 ''guest_127.0.0.1''
         (snd (run_checks settings
          (map (\<lambda>t. (t, ''guest_127.0.0.1''))
             [0, 1000000, 2000000, 3000000, 4000000, 5000000,
              6000000, 7000000, 8000000, 9000000, 59999999]) Map.empty)))"
  using rate_limit_window [of Map.empty "''guest_127.0.0.1''" settings 10
      "[0, 1000000, 2000000, 3000000, 4000000, 5000000,
        6000000, 7000000, 8000000, 9000000, 59999999]"]
  by (simp add: settings_def defaultdict_get_def timedelta_seconds_def)

lemma run_checks_other:
  "\<forall>e\<in>set evs. snd e \<noteq> k \<Longrightarrow> snd (run_checks cfg evs reqs) k = reqs k"
proof (induction evs arbitrary: reqs)
  case Nil
  then show ?case by simp
next
  case (Cons e evs)
  obtain now key where e: "e = (now, key)" by (cases e)
  with Cons.prems have "key \<noteq> k" by auto
  then have "snd (is_rate_limited cfg now key reqs) k = reqs k"
    by (simp add: is_rate_limited_other)
  moreover have "snd (run_checks cfg evs (snd (is_rate_limited cfg now key reqs))) k
      = snd (is_rate_limited cfg now key reqs) k"
    using Cons.prems by (intro Cons.IH) simp
  ultimately show ?case using e by (simp add: split_beta Let_def)
qed

lemma is_rate_limited_fst_cong:
  "reqs1 k = reqs2 k \<Longrightarrow>
     fst (is_rate_limited cfg now k reqs1) = fst (is_rate_limited cfg now k reqs2)"
  by (simp add: is_rate_limited_fst defaultdict_get_def)

text \<open>
  Claim C4. For distinct keys \<open>A\<close> and \<open>B\<close>, a check on \<open>A\<close> leaves the stored
  sequence of \<open>B\<close> unchanged, and so does any number of checks on \<open>A\<close>; a check on
  \<open>B\<close> after them has the outcome it would have had without them, and is admitted
  whenever \<open>B\<close> holds fewer than \<open>N\<close> timestamps.
\<close>

theorem rate_limit_keys_independent:
  assumes "A \<noteq> B"
  shows "snd (is_rate_limited cfg now A reqs) B = reqs B
       \<and> snd (run_checks cfg (map (\<lambda>t. (t, A)) ts) reqs) B = reqs B
       \<and> fst (is_rate_limited cfg now B (snd (run_checks cfg (map (\<lambda>t. (t, A)) ts) reqs)))
           = fst (is_rate_limited cfg now B reqs)
       \<and> (int (length (defaultdict_get reqs B)) < rate_limit_requests cfg \<longrightarrow>
            \<not> fst (is_rate_limited cfg now B (snd (run_checks cfg (map (\<lambda>t. (t, A)) ts) reqs))))"
proof -
  have one: "snd (is_rate_limited cfg now A reqs) B = reqs B"
    using assms by (simp add: is_rate_limited_other)
  have many: "snd (run_checks cfg (map (\<lambda>t. (t, A)) ts) reqs) B = reqs B"
    using assms by (intro run_checks_other) auto
  have same: "fst (is_rate_limited cfg now B (snd (run_checks cfg (map (\<lambda>t. (t, A)) ts) reqs)))
           = fst (is_rate_limited cfg now B reqs)"
    using many by (rule is_rate_limited_fst_cong)
  have room: "\<not> fst (is_rate_limited cfg now B reqs)"
    if "int (length (defaultdict_get reqs B)) < rate_limit_requests cfg"
  proof -
    have "length (filter (\<lambda>t. now - t < timedelta_seconds (rate_limit_period cfg))
            (defaultdict_get reqs B)) \<le> length (defaultdict_get reqs B)"
      by (rule length_filter_le)
    with that show ?thesis unfolding is_rate_limited_fst by linarith
  qed
  show ?thesis using one many same room by simp
qed

theorem rate_limit_keys_independent_witness:
  "''guest_10.0.0.1'' \<noteq> ''trader_10.0.0.2''
   \<and> fst (run_checks (settings\<lparr>rate_limit_requests := 2\<rparr>)
        (map (\<lambda>t. (t, ''guest_10.0.0.1'')) [0, 1, 2, 3]) Map.empty) = [False, False, True, True]
   \<and> \<not> fst (is_rate_limited (settings\<lparr>rate_limit_requests := 2\<rparr>) 4 ''trader_10.0.0.2''
        (snd (run_checks (settings\<lparr>rate_limit_requests := 2\<rparr>)
           (map (\<lambda>t. (t, ''guest_10.0.0.1'')) [0, 1, 2, 3]) Map.empty)))"
  using rate_limit_keys_independent [where A = "''guest_10.0.0.1''" and B = "''trader_10.0.0.2''"
      and reqs = Map.empty and cfg = "settings\<lparr>rate_limit_requests := 2\<rparr>"
      and ts = "[0, 1, 2, 3]" and now = 4]
  by (simp add: settings_def defaultdict_get_def timedelta_seconds_def is_rate_limited_def)

lemma is_rate_limited_bound:
  assumes "int (length (defaultdict_get reqs k)) \<le> rate_limit_requests cfg"
  shows "int (length (defaultdict_get (snd (is_rate_limited cfg now key reqs)) k))
           \<le> rate_limit_requests cfg"
proof (cases "key = k")
  case True
  let ?kept = "filter (\<lambda>t. now - t < timedelta_seconds (rate_limit_period cfg))
                 (defaultdict_get reqs k)"
  have "length ?kept \<le> length (defaultdict_get reqs k)" by (rule length_filter_le)
  with assms have "int (length ?kept) \<le> rate_limit_requests cfg" by linarith
  with True show ?thesis by (simp add: is_rate_limited_get Let_def)
next
  case False
  then have "defaultdict_get (snd (is_rate_limited cfg now key reqs)) k = defaultdict_get reqs k"
    by (simp add: is_rate_limited_other defaultdict_get_def)
  with assms show ?thesis by simp
qed

lemma run_checks_bound:
  "int (length (defaultdict_get reqs k)) \<le> rate_limit_requests cfg \<Longrightarrow>
   int (length (defaultdict_get (snd (run_checks cfg evs reqs)) k)) \<le> rate_limit_requests cfg"
proof (induction evs arbitrary: reqs)
  case Nil
  then show ?case by simp
next
  case (Cons e evs)
  obtain now key where e: "e = (now, key)" by (cases e)
  have "int (length (defaultdict_get (snd (run_checks cfg evs
            (snd (is_rate_limited cfg now key reqs)))) k)) \<le> rate_limit_requests cfg"
    by (intro Cons.IH is_rate_limited_bound Cons.prems)
  then show ?case using e by (simp add: split_beta Let_def)
qed

text \<open>
  Claim C10. With a non-negative quota \<open>N\<close>, after any sequence of checks from the empty
  state the stored sequence of every key has at most \<open>N\<close> entries; the bound is
  preserved by every single check, from any state that satisfies it.
\<close>

theorem rate_limit_stored_bound:
  assumes "0 \<le> rate_limit_requests cfg"
  shows "int (length (defaultdict_get (snd (run_checks cfg evs Map.empty)) k))
           \<le> rate_limit_requests cfg
       \<and> (\<forall>reqs now key.
            int (length (defaultdict_get reqs k)) \<le> rate_limit_requests cfg \<longrightarrow>
            int (length (defaultdict_get (snd (is_rate_limited cfg now key reqs)) k))
              \<le> rate_limit_requests cfg)"
proof -
  have "int (length (defaultdict_get Map.empty k)) \<le> rate_limit_requests cfg"
    using assms by (simp add: defaultdict_get_def)
  then have "int (length (defaultdict_get (snd (run_checks cfg evs Map.empty)) k))
           \<le> rate_limit_requests cfg"
    by (rule run_checks_bound)
  then show ?thesis using is_rate_limited_bound by blast
qed

theorem rate_limit_stored_bound_witness:
  "0 \<le> rate_limit_requests (settings\<lparr>rate_limit_requests := 2\<rparr>)
   \<and> defaultdict_get (snd (run_checks (settings\<lparr>rate_limit_requests := 2\<rparr>)
        [(0, ''a''), (1, ''b''), (2, ''a''), (3, ''a''), (4, ''a'')] Map.empty)) ''a'' = [0, 2]
   \<and> int (length (defaultdict_get (snd (run_checks (settings\<lparr>rate_limit_requests := 2\<rparr>)
        [(0, ''a''), (1, ''b''), (2, ''a''), (3, ''a''), (4, ''a'')] Map.empty)) ''a''))
        \<le> rate_limit_requests (settings\<lparr>rate_limit_requests := 2\<rparr>)"
  using rate_limit_stored_bound [of "settings\<lparr>rate_limit_requests := 2\<rparr>"
      "[(0, ''a''), (1, ''b''), (2, ''a''), (3, ''a''), (4, ''a'')]" "''a''"]
  by (simp add: settings_def defaultdict_get_def timedelta_seconds_def is_rate_limited_def)

text \<open>
  The exception that \<open>check_rate_limit\<close> raises whenever the limiter denies: status 429,
  with the configured window, as Python prints the integer, in its message and in its
  \<open>Retry-After\<close> header.
\<close>

lemma check_rate_limit_denied:
  assumes "fst (is_rate_limited cfg now key reqs)"
  shows "fst (check_rate_limit cfg now key reqs) =
           Inl \<lparr> status_code = 429,
                 detail = ''Rate limit exceeded. Try again in ''
                          @ str_int (rate_limit_period cfg) @ '' seconds.'',
                 headers = [(''Retry-After'', str_int (rate_limit_period cfg))] \<rparr>
       \<and> snd (check_rate_limit cfg now key reqs) = snd (is_rate_limited cfg now key reqs)"
  using assms by (simp add: check_rate_limit_def split_beta)

section \<open>Properties of the market data search\<close>

lemma and_then_Inr [simp]: "and_then (Inr x) f = f x"
  by (simp add: and_then_def)

lemma and_then_Inl [simp]: "and_then (Inl e) f = Inl e"
  by (simp add: and_then_def)

lemma and_then_eq_Inr:
  "and_then m f = Inr y \<longleftrightarrow> (\<exists>x. m = Inr x \<and> f x = Inr y)"
  by (cases m) simp_all

lemma and_then_eq_Inl:
  "and_then m f = Inl e \<longleftrightarrow> m = Inl e \<or> (\<exists>x. m = Inr x \<and> f x = Inl e)"
  by (cases m) simp_all

lemma append_results_length:
  "append_results results market_data = Inr md \<Longrightarrow>
   length md = length market_data + length results"
proof (induction results arbitrary: market_data)
  case Nil
  then show ?case by simp
next
  case (Cons r rs)
  from Cons.prems obtain m where "append_results rs (market_data @ [m]) = Inr md"
    by (auto simp: and_then_eq_Inr)
  from Cons.IH[OF this] show ?case by simp
qed

lemma get_fallback_data_length: "length (get_fallback_data ucd sector) = 1"
  by (simp add: get_fallback_data_def dict_get_def fallback_data_def)

lemma get_fallback_data_pharmaceuticals:
  "get_fallback_data ucd ''pharmaceuticals'' =
     [\<lparr> title = ''Indian Pharma Sector Growth Outlook 2024'',
        source = ''Industry Report'',
        snippet = ''Indian pharmaceutical sector expected to grow at 8-10% CAGR driven by exports and domestic demand.'',
        date = ''2024'',
        url = Some '''' \<rparr>]"
  by (simp add: get_fallback_data_def dict_get_def fallback_data_def)

lemma get_fallback_data_technology:
  "get_fallback_data ucd ''technology'' =
     [\<lparr> title = ''India Tech Sector: AI and Digital Transformation'',
        source = ''Tech Analysis'',
        snippet = ''Technology sector in India seeing increased investment in AI, cloud computing, and digital services.'',
        date = ''2024'',
        url = Some '''' \<rparr>]"
  by (simp add: get_fallback_data_def dict_get_def fallback_data_def)

lemma get_fallback_data_agriculture:
  "get_fallback_data ucd ''agriculture'' =
     [\<lparr> title = ''Agricultural Sector Modernization Trends'',
        source = ''Agri Report'',
        snippet = ''Precision farming and organic exports driving growth in Indian agriculture sector.'',
        date = ''2024'',
        url = Some '''' \<rparr>]"
  by (simp add: get_fallback_data_def dict_get_def fallback_data_def)

lemma get_fallback_data_generic:
  "sector \<notin> {''pharmaceuticals'', ''technology'', ''agriculture''} \<Longrightarrow>
   get_fallback_data ucd sector =
     [\<lparr> title = str_title ucd sector @ '' Sector Analysis'',
        source = ''Market Intelligence'',
        snippet = ''Current trends and opportunities in the '' @ sector @ '' sector.'',
        date = ''2024'',
        url = Some '''' \<rparr>]"
  by (simp add: get_fallback_data_def dict_get_def fallback_data_def)

lemma search_market_data_success:
  "search_try ddgs_text sector max_results = Inr market_data \<Longrightarrow>
   search_market_data ucd print ddgs_text sector max_results = Inr market_data"
  by (simp add: search_market_data_def)

lemma search_market_data_handler:
  "search_try ddgs_text sector max_results = Inl e \<Longrightarrow> isinstance_Exception e \<Longrightarrow>
   print (''Search failed: '' @ str_exc e) = Inr () \<Longrightarrow>
   search_market_data ucd print ddgs_text sector max_results = Inr (get_fallback_data ucd sector)"
  by (simp add: search_market_data_def)

lemma search_market_data_raises:
  "search_market_data ucd print ddgs_text sector max_results = Inl e \<longleftrightarrow>
     (search_try ddgs_text sector max_results = Inl e \<and> \<not> isinstance_Exception e)
     \<or> (\<exists>e0. search_try ddgs_text sector max_results = Inl e0 \<and> isinstance_Exception e0
            \<and> print (''Search failed: '' @ str_exc e0) = Inl e)"
  by (auto simp: search_market_data_def and_then_eq_Inl split: sum.splits)

lemma search_market_data_empty:
  "search_market_data ucd print ddgs_text sector max_results = Inr [] \<longleftrightarrow>
     ddgs_text (sector @ '' sector India market news trends 2024 latest updates'') max_results
       = Inr []"
proof
  let ?q = "sector @ '' sector India market news trends 2024 latest updates''"
  assume e: "search_market_data ucd print ddgs_text sector max_results = Inr []"
  have "get_fallback_data ucd sector \<noteq> []"
    using get_fallback_data_length[of ucd sector] by auto
  with e have "search_try ddgs_text sector max_results = Inr []"
    by (auto simp: search_market_data_def and_then_eq_Inr split: sum.splits if_splits)
  then obtain results where r: "ddgs_text ?q max_results = Inr results"
    and a: "append_results results [] = Inr []"
    by (auto simp: search_try_def and_then_eq_Inr)
  from append_results_length[OF a] have "results = []" by simp
  with r show "ddgs_text ?q max_results = Inr []" by simp
next
  assume "ddgs_text (sector @ '' sector India market news trends 2024 latest updates'') max_results
       = Inr []"
  then show "search_market_data ucd print ddgs_text sector max_results = Inr []"
    by (simp add: search_market_data_def search_try_def)
qed

text \<open>
  Claim C2, as stated, fails on the success path: when the search provider answers with no
  result, the loop appends nothing, no exception is raised, and the empty list is returned.
\<close>

theorem search_market_data_empty_result:
  "search_market_data
     \<lparr> ucd_lower = (\<lambda>s. s), ucd_title = (\<lambda>s. s) \<rparr> (\<lambda>text. Inr ())
     (\<lambda>query max_results. Inr []) ''technology'' 10 = Inr []"
  by (simp add: search_market_data_def search_try_def)

text \<open>
  Claim C2, amended. When the body of the \<open>try\<close> succeeds, \<open>search_market_data\<close> returns
  the records collected, and this list is empty exactly when the provider succeeds with no
  result. When the body raises an instance of \<open>Exception\<close> (the provider fails, or a result
  is rejected by the record's validation) and the handler's print returns, the result is
  the fallback data: the canned record of pharmaceuticals, of technology or of agriculture,
  and for every other sector the one generic record that names the sector. The function
  raises in two cases only: the body raises an exception outside \<open>Exception\<close>, which passes
  through, or the handler's print raises.
\<close>

theorem search_market_data_never_raises:
  "(\<forall>market_data. search_try ddgs_text sector max_results = Inr market_data \<longrightarrow>
      search_market_data ucd print ddgs_text sector max_results = Inr market_data)
   \<and> (\<forall>e. search_try ddgs_text sector max_results = Inl e \<and> isinstance_Exception e
            \<and> print (''Search failed: '' @ str_exc e) = Inr () \<longrightarrow>
          search_market_data ucd print ddgs_text sector max_results
            = Inr (get_fallback_data ucd sector))
   \<and> (\<forall>e. search_market_data ucd print ddgs_text sector max_results = Inl e \<longleftrightarrow>
          (search_try ddgs_text sector max_results = Inl e \<and> \<not> isinstance_Exception e)
          \<or> (\<exists>e0. search_try ddgs_text sector max_results = Inl e0 \<and> isinstance_Exception e0
                 \<and> print (''Search failed: '' @ str_exc e0) = Inl e))
   \<and> get_fallback_data ucd ''pharmaceuticals'' =
        [\<lparr> title = ''Indian Pharma Sector Growth Outlook 2024'',
           source = ''Industry Report'',
           snippet = ''Indian pharmaceutical sector expected to grow at 8-10% CAGR driven by exports and domestic demand.'',
           date = ''2024'',
           url = Some '''' \<rparr>]
   \<and> get_fallback_data ucd ''technology'' =
        [\<lparr> title = ''India Tech Sector: AI and Digital Transformation'',
           source = ''Tech Analysis'',
           snippet = ''Technology sector in India seeing increased investment in AI, cloud computing, and digital services.'',
           date = ''2024'',
           url = Some '''' \<rparr>]
   \<and> get_fallback_data ucd ''agriculture'' =
        [\<lparr> title = ''Agricultural Sector Modernization Trends'',
           source = ''Agri Report'',
           snippet = ''Precision farming and organic exports driving growth in Indian agriculture sector.'',
           date = ''2024'',
           url = Some '''' \<rparr>]
   \<and> (sector \<notin> {''pharmaceuticals'', ''technology'', ''agriculture''} \<longrightarrow>
        get_fallback_data ucd sector =
          [\<lparr> title = str_title ucd sector @ '' Sector Analysis'',
             source = ''Market Intelligence'',
             snippet = ''Current trends and opportunities in the '' @ sector @ '' sector.'',
             date = ''2024'',
             url = Some '''' \<rparr>])
   \<and> (search_market_data ucd print ddgs_text sector max_results = Inr [] \<longleftrightarrow>
        ddgs_text (sector @ '' sector India market news trends 2024 latest updates'') max_results
          = Inr [])"
proof (intro conjI allI impI)
  fix e
  show "search_market_data ucd print ddgs_text sector max_results = Inl e \<longleftrightarrow>
          (search_try ddgs_text sector max_results = Inl e \<and> \<not> isinstance_Exception e)
          \<or> (\<exists>e0. search_try ddgs_text sector max_results = Inl e0 \<and> isinstance_Exception e0
                 \<and> print (''Search failed: '' @ str_exc e0) = Inl e)"
    by (rule search_market_data_raises)
qed (simp_all add: search_market_data_success search_market_data_handler
       get_fallback_data_pharmaceuticals get_fallback_data_technology
       get_fallback_data_agriculture get_fallback_data_generic search_market_data_empty)

theorem search_market_data_never_raises_witness:
  "search_try (\<lambda>query max_results. Inl (Exception ''ConnectionError'' ''offline'')) ''crypto'' 10
     = Inl (Exception ''ConnectionError'' ''offline'')
   \<and> isinstance_Exception (Exception ''ConnectionError'' ''offline'')
   \<and> ''crypto'' \<notin> {''pharmaceuticals'', ''technology'', ''agriculture''}
   \<and> search_market_data \<lparr> ucd_lower = (\<lambda>s. s), ucd_title = (\<lambda>s. s) \<rparr> (\<lambda>text. Inr ())
        (\<lambda>query max_results. Inl (Exception ''ConnectionError'' ''offline'')) ''crypto'' 10
     = Inr [\<lparr> title = ''Crypto Sector Analysis'',
              source = ''Market Intelligence'',
              snippet = ''Current trends and opportunities in the crypto sector.'',
              date = ''2024'',
              url = Some '''' \<rparr>]
   \<and> search_market_data \<lparr> ucd_lower = (\<lambda>s. s), ucd_title = (\<lambda>s. s) \<rparr> (\<lambda>text. Inr ())
        (\<lambda>query max_results. Inr [[(''title'', PNone)]]) ''technology'' 10
     = Inr [\<lparr> title = ''India Tech Sector: AI and Digital Transformation'',
              source = ''Tech Analysis'',
              snippet = ''Technology sector in India seeing increased investment in AI, cloud computing, and digital services.'',
              date = ''2024'',
              url = Some '''' \<rparr>]
   \<and> search_market_data \<lparr> ucd_lower = (\<lambda>s. s), ucd_title = (\<lambda>s. s) \<rparr> (\<lambda>text. Inr ())
        (\<lambda>query max_results. Inl (BaseException ''KeyboardInterrupt'' '''')) ''technology'' 10
     = Inl (BaseException ''KeyboardInterrupt'' '''')"
  using search_market_data_never_raises
    [where ddgs_text = "\<lambda>query max_results. Inl (Exception ''ConnectionError'' ''offline'')"
       and sector = "''crypto''" and max_results = 10 and print = "\<lambda>text. Inr ()"
       and ucd = "\<lparr> ucd_lower = (\<lambda>s. s), ucd_title = (\<lambda>s. s) \<rparr>"]
    search_market_data_never_raises
    [where ddgs_text = "\<lambda>query max_results. Inr [[(''title'', PNone)]]"
       and sector = "''technology''" and max_results = 10 and print = "\<lambda>text. Inr ()"
       and ucd = "\<lparr> ucd_lower = (\<lambda>s. s), ucd_title = (\<lambda>s. s) \<rparr>"]
    search_market_data_never_raises
    [where ddgs_text = "\<lambda>query max_results. Inl (BaseException ''KeyboardInterrupt'' '''')"
       and sector = "''technology''" and max_results = 10 and print = "\<lambda>text. Inr ()"
       and ucd = "\<lparr> ucd_lower = (\<lambda>s. s), ucd_title = (\<lambda>s. s) \<rparr>"]
  by (simp add: search_try_def str_title_def is_ascii_def ascii_lowercase_def ascii_uppercase_def
        char_upper_def dict_get_def new_MarketData_def)

section \<open>Properties of the extraction of the JSON text\<close>



































section \<open>Properties of the analysis\<close>

lemma analyze_with_gemini_no_key:
  "initialize_gemini cfg configure = Inr False \<longrightarrow>
      analyze_with_gemini cfg configure print generate_content json_loads sector market_data
        = Inr (generate_mock_analysis sector market_data)"
  by (simp add: analyze_with_gemini_def)

lemma analyze_with_gemini_handler:
  "\<forall>e. initialize_gemini cfg configure = Inr True
          \<and> analyze_try generate_content json_loads sector market_data = Inl e
          \<and> isinstance_Exception e
          \<and> print (''Gemini analysis failed: '' @ str_exc e) = Inr () \<longrightarrow>
        analyze_with_gemini cfg configure print generate_content json_loads sector market_data
          = Inr (generate_mock_analysis sector market_data)"
  by (simp add: analyze_with_gemini_def)

lemma analyze_try_transport:
  "\<forall>e. generate_content sector market_data = Inl e \<longrightarrow>
        analyze_try generate_content json_loads sector market_data = Inl e"
  by (simp add: analyze_try_def)

lemma analyze_try_parse:
  "\<forall>response_text json_str.
        generate_content sector market_data = Inr response_text
          \<and> extract_json response_text = Inr json_str \<longrightarrow>
        analyze_try generate_content json_loads sector market_data = json_loads json_str"
  by (simp add: analyze_try_def)

lemma analyze_with_gemini_parsed:
  "\<forall>analysis. initialize_gemini cfg configure = Inr True
          \<and> analyze_try generate_content json_loads sector market_data = Inr analysis \<longrightarrow>
        analyze_with_gemini cfg configure print generate_content json_loads sector market_data
          = Inr analysis"
  by (simp add: analyze_with_gemini_def)

lemma analyze_with_gemini_raises:
  "\<forall>e. analyze_with_gemini cfg configure print generate_content json_loads sector market_data = Inl e
          \<longleftrightarrow>
        initialize_gemini cfg configure = Inl e \<or>
        initialize_gemini cfg configure = Inr True \<and>
        ((analyze_try generate_content json_loads sector market_data = Inl e
            \<and> \<not> isinstance_Exception e)
         \<or> (\<exists>e0. analyze_try generate_content json_loads sector market_data = Inl e0
                \<and> isinstance_Exception e0
                \<and> print (''Gemini analysis failed: '' @ str_exc e0) = Inl e))"
  by (auto simp: analyze_with_gemini_def and_then_eq_Inl split: sum.splits)

lemma initialize_gemini_no_key:
  "gemini_api_key cfg = None \<or> gemini_api_key cfg = Some [] \<longrightarrow>
     initialize_gemini cfg configure = Inr False"
  by (auto simp: initialize_gemini_def)

lemma initialize_gemini_key:
  "\<forall>api_key. gemini_api_key cfg = Some api_key \<and> api_key \<noteq> [] \<longrightarrow>
     initialize_gemini cfg configure = and_then (configure api_key) (\<lambda>u. Inr True)"
  by (simp add: initialize_gemini_def)

lemma generate_mock_analysis_summary:
  "\<exists>before after. get_summary (generate_mock_analysis sector market_data)
                        = Some (before @ sector @ after)"
proof -
  have "get_summary (generate_mock_analysis sector market_data)
          = Some (''The '' @ sector @ '' sector in India shows promising growth potential with increasing digital adoption and government support.'')"
    by (simp add: generate_mock_analysis_def)
  then show ?thesis by blast
qed

lemma generate_mock_analysis_trends:
  "length (get_default (get_market_trends (generate_mock_analysis sector market_data)) []) = 5"
  by (simp add: generate_mock_analysis_def get_default_def)

lemma generate_mock_analysis_opportunities:
  "map (\<lambda>opp. (map_of opp ''risk_level'', map_of opp ''time_horizon''))
        (get_default (get_trade_opportunities (generate_mock_analysis sector market_data)) [])
      = [(Some ''medium'', Some ''medium-term''), (Some ''low'', Some ''long-term'')]"
  by (simp add: generate_mock_analysis_def get_default_def)

lemma generate_mock_analysis_risks:
  "length (get_default (get_risks (generate_mock_analysis sector market_data)) []) = 4"
  by (simp add: generate_mock_analysis_def get_default_def)

lemma generate_mock_analysis_pure:
  "generate_mock_analysis sector market_data = generate_mock_analysis sector []"
  by (simp add: generate_mock_analysis_def)

text \<open>
  Claim C3, as stated, fails where it speaks of a schema failure: the live path makes no
  check of the parsed dictionary. With a credential configured and the response \<open>{}\<close>,
  which parses to the empty dictionary, that dictionary is returned and not the mock
  analysis.
\<close>

theorem analyze_with_gemini_schema_unchecked:
  "analyze_with_gemini (settings \<lparr> gemini_api_key := Some ''key'' \<rparr>)
        (\<lambda>api_key. Inr ()) (\<lambda>line. Inr ())
     (\<lambda>sector market_data. Inr ''{}'')
     (\<lambda>json_str. if json_str = ''{}'' then Inr (AnalysisDict None None None None)
                  else Inl (Exception ''JSONDecodeError'' json_str))
     ''technology'' []
     = Inr (AnalysisDict None None None None)
   \<and> AnalysisDict None None None None \<noteq> generate_mock_analysis ''technology'' []"
  by (simp add: analyze_with_gemini_def initialize_gemini_def settings_def analyze_try_def
        extract_json_def startswith_def generate_mock_analysis_def)

text \<open>
  Claim C3, amended. Without a credential (no key, or the empty key) the result is the mock
  analysis. With one, once the client library is configured, the result is the mock
  analysis whenever the body of the \<open>try\<close> raises an instance of \<open>Exception\<close> and the
  handler's print returns; the body raises what the model call raises and what the parser
  raises on the extracted text. A dictionary that the parser returns is the result as it
  is, whatever its entries. The function raises in three cases only: the configuration of
  the client library raises, the body raises an exception outside \<open>Exception\<close>, or the
  handler's print raises. The mock analysis has a summary naming the sector, five trends,
  two opportunities (medium risk and medium-term, then low risk and long-term) and four
  risks, and does not depend on the market data.
\<close>

theorem analyze_with_gemini_fallback:
  "(initialize_gemini cfg configure = Inr False \<longrightarrow>
      analyze_with_gemini cfg configure print generate_content json_loads sector market_data
        = Inr (generate_mock_analysis sector market_data))
   \<and> (\<forall>e. initialize_gemini cfg configure = Inr True
          \<and> analyze_try generate_content json_loads sector market_data = Inl e
          \<and> isinstance_Exception e
          \<and> print (''Gemini analysis failed: '' @ str_exc e) = Inr () \<longrightarrow>
        analyze_with_gemini cfg configure print generate_content json_loads sector market_data
          = Inr (generate_mock_analysis sector market_data))
   \<and> (\<forall>e. generate_content sector market_data = Inl e \<longrightarrow>
        analyze_try generate_content json_loads sector market_data = Inl e)
   \<and> (\<forall>response_text json_str.
        generate_content sector market_data = Inr response_text
          \<and> extract_json response_text = Inr json_str \<longrightarrow>
        analyze_try generate_content json_loads sector market_data = json_loads json_str)
   \<and> (\<forall>analysis. initialize_gemini cfg configure = Inr True
          \<and> analyze_try generate_content json_loads sector market_data = Inr analysis \<longrightarrow>
        analyze_with_gemini cfg configure print generate_content json_loads sector market_data
          = Inr analysis)
   \<and> (\<forall>e. analyze_with_gemini cfg configure print generate_content json_loads sector market_data = Inl e
          \<longleftrightarrow>
        initialize_gemini cfg configure = Inl e \<or>
        initialize_gemini cfg configure = Inr True \<and>
        ((analyze_try generate_content json_loads sector market_data = Inl e
            \<and> \<not> isinstance_Exception e)
         \<or> (\<exists>e0. analyze_try generate_content json_loads sector market_data = Inl e0
                \<and> isinstance_Exception e0
                \<and> print (''Gemini analysis failed: '' @ str_exc e0) = Inl e)))
   \<and> (gemini_api_key cfg = None \<or> gemini_api_key cfg = Some [] \<longrightarrow>
        initialize_gemini cfg configure = Inr False)
   \<and> (\<forall>api_key. gemini_api_key cfg = Some api_key \<and> api_key \<noteq> [] \<longrightarrow>
        initialize_gemini cfg configure = and_then (configure api_key) (\<lambda>u. Inr True))
   \<and> (\<exists>before after. get_summary (generate_mock_analysis sector market_data)
                        = Some (before @ sector @ after))
   \<and> length (get_default (get_market_trends (generate_mock_analysis sector market_data)) []) = 5
   \<and> map (\<lambda>opp. (map_of opp ''risk_level'', map_of opp ''time_horizon''))
        (get_default (get_trade_opportunities (generate_mock_analysis sector market_data)) [])
      = [(Some ''medium'', Some ''medium-term''), (Some ''low'', Some ''long-term'')]
   \<and> length (get_default (get_risks (generate_mock_analysis sector market_data)) []) = 4
   \<and> generate_mock_analysis sector market_data = generate_mock_analysis sector []"
  by (intro conjI analyze_with_gemini_no_key analyze_with_gemini_handler analyze_try_transport
        analyze_try_parse analyze_with_gemini_parsed analyze_with_gemini_raises
        initialize_gemini_no_key initialize_gemini_key
        generate_mock_analysis_summary generate_mock_analysis_trends
        generate_mock_analysis_opportunities generate_mock_analysis_risks
        generate_mock_analysis_pure)

theorem analyze_with_gemini_fallback_witness:
  "initialize_gemini settings (\<lambda>api_key. Inr ()) = Inr False
   \<and> analyze_with_gemini settings (\<lambda>api_key. Inr ()) (\<lambda>line. Inr ())
        (\<lambda>sector market_data. Inr ''{}'')
        (\<lambda>json_str. Inl (Exception ''JSONDecodeError'' json_str)) ''technology'' []
      = Inr (generate_mock_analysis ''technology'' [])
   \<and> initialize_gemini (settings \<lparr> gemini_api_key := Some ''key'' \<rparr>) (\<lambda>api_key. Inr ())
       = Inr True
   \<and> analyze_try (\<lambda>sector market_data. Inl (Exception ''ConnectionError'' ''offline''))
        (\<lambda>json_str. Inl (Exception ''JSONDecodeError'' json_str)) ''technology'' []
      = Inl (Exception ''ConnectionError'' ''offline'')
   \<and> isinstance_Exception (Exception ''ConnectionError'' ''offline'')
   \<and> analyze_with_gemini (settings \<lparr> gemini_api_key := Some ''key'' \<rparr>)
        (\<lambda>api_key. Inr ()) (\<lambda>line. Inr ())
        (\<lambda>sector market_data. Inl (Exception ''ConnectionError'' ''offline''))
        (\<lambda>json_str. Inl (Exception ''JSONDecodeError'' json_str)) ''technology'' []
      = Inr (generate_mock_analysis ''technology'' [])
   \<and> analyze_with_gemini (settings \<lparr> gemini_api_key := Some ''key'' \<rparr>)
        (\<lambda>api_key. Inr ()) (\<lambda>line. Inr ())
        (\<lambda>sector market_data. Inr ''not json'')
        (\<lambda>json_str. Inl (Exception ''JSONDecodeError'' json_str)) ''technology'' []
      = Inr (generate_mock_analysis ''technology'' [])
   \<and> get_summary (generate_mock_analysis ''technology'' [])
      = Some (''The technology sector in India shows promising growth potential with increasing digital adoption and government support.'')"
  using analyze_with_gemini_fallback
      [where cfg = settings and print = "\<lambda>line. Inr ()" and configure = "\<lambda>api_key. Inr ()"
         and generate_content = "\<lambda>sector market_data. Inr ''{}''"
         and json_loads = "\<lambda>json_str. Inl (Exception ''JSONDecodeError'' json_str)"
         and sector = "''technology''" and market_data = "[]"]
    analyze_with_gemini_fallback
      [where cfg = "settings \<lparr> gemini_api_key := Some ''key'' \<rparr>" and print = "\<lambda>line. Inr ()"
         and configure = "\<lambda>api_key. Inr ()"
         and generate_content = "\<lambda>sector market_data. Inl (Exception ''ConnectionError'' ''offline'')"
         and json_loads = "\<lambda>json_str. Inl (Exception ''JSONDecodeError'' json_str)"
         and sector = "''technology''" and market_data = "[]"]
    analyze_with_gemini_fallback
      [where cfg = "settings \<lparr> gemini_api_key := Some ''key'' \<rparr>" and print = "\<lambda>line. Inr ()"
         and configure = "\<lambda>api_key. Inr ()"
         and generate_content = "\<lambda>sector market_data. Inr ''not json''"
         and json_loads = "\<lambda>json_str. Inl (Exception ''JSONDecodeError'' json_str)"
         and sector = "''technology''" and market_data = "[]"]
  by (simp add: initialize_gemini_def settings_def analyze_try_def extract_json_def
        startswith_def generate_mock_analysis_def)

section \<open>The rate limit rejection as the client receives it\<close>

text \<open>
  When the limiter denies an authenticated request for an allowed sector, \<open>analyze_sector\<close>
  raises the exception of \<open>check_rate_limit\<close> unchanged: the check is outside the \<open>try\<close>.
\<close>

lemma analyze_sector_rate_limited:
  assumes "str_lower (env_ucd env) sector \<in> set (allowed_sectors cfg)"
    and "get_current_user (env_jwt_decode env) credentials = Inr current_user"
    and "client_host request = Some host"
    and "fst (is_rate_limited cfg (env_now env) (username current_user @ ''_'' @ host)
           (rate_limiter_requests st))"
  shows "fst (analyze_sector cfg env sector request credentials st) =
           Inl (HTTPError
             \<lparr> status_code = 429,
               detail = ''Rate limit exceeded. Try again in ''
                        @ str_int (rate_limit_period cfg) @ '' seconds.'',
               headers = [(''Retry-After'', str_int (rate_limit_period cfg))] \<rparr>)"
  using assms by (simp add: analyze_sector_def check_rate_limit_def split_beta Let_def)

text \<open>
  Claim C7. At the default settings the eleventh request of one identity within 60 seconds
  is denied, and \<open>analyze_sector\<close> raises the 429 exception whose message and whose
  \<open>Retry-After\<close> header both give the window, 60. The response that
  \<open>http_exception_handler\<close> builds from this exception, which is what the client receives,
  keeps the status and the message and has no \<open>Retry-After\<close> header: the handler does not
  read the exception's headers.
\<close>

theorem rate_limit_response_drops_retry_after:
  "fst (analyze_sector settings
          \<lparr> env_ucd = \<lparr> ucd_lower = (\<lambda>s. s), ucd_title = (\<lambda>s. s) \<rparr>,
            env_print = (\<lambda>line. Inr ()),
            env_configure = (\<lambda>api_key. Inr ()),
            env_jwt_decode = (\<lambda>token. Inr (Some ''guest'')),
            env_ddgs_text = (\<lambda>query max_results. Inr []),
            env_generate_content = (\<lambda>sector market_data. Inr ''{}''),
            env_json_loads = (\<lambda>json_str. Inl (Exception ''JSONDecodeError'' '''')),
            env_now = 59999999,
            env_strftime = ''2024-01-01 00:00:59'',
            env_isoformat = ''2024-01-01T00:00:59.999999'',
            env_isoformat_session = ''2024-01-01T00:00:59.999999'' \<rparr>
          ''technology'' \<lparr> client_host = Some ''127.0.0.1'' \<rparr> ''token''
          \<lparr> rate_limiter_requests =
              snd (run_checks settings
                (map (\<lambda>t. (t, ''guest_127.0.0.1''))
                   [0, 1000000, 2000000, 3000000, 4000000, 5000000,
                    6000000, 7000000, 8000000, 9000000]) Map.empty),
            sessions = Map.empty,
            logged = [] \<rparr>)
     = Inl (HTTPError
         \<lparr> status_code = 429,
           detail = ''Rate limit exceeded. Try again in 60 seconds.'',
           headers = [(''Retry-After'', ''60'')] \<rparr>)
   \<and> http_exception_handler \<lparr> client_host = Some ''127.0.0.1'' \<rparr>
         \<lparr> status_code = 429,
           detail = ''Rate limit exceeded. Try again in 60 seconds.'',
           headers = [(''Retry-After'', ''60'')] \<rparr>
     = \<lparr> response_status_code = 429,
         response_content = [(''detail'', ''Rate limit exceeded. Try again in 60 seconds.'')],
         response_headers = [] \<rparr>
   \<and> map_of (response_headers
         (http_exception_handler \<lparr> client_host = Some ''127.0.0.1'' \<rparr>
            \<lparr> status_code = 429,
              detail = ''Rate limit exceeded. Try again in 60 seconds.'',
              headers = [(''Retry-After'', ''60'')] \<rparr>)) ''Retry-After'' = None"
proof -
  let ?env = "\<lparr> env_ucd = \<lparr> ucd_lower = (\<lambda>s. s), ucd_title = (\<lambda>s. s) \<rparr>,
            env_print = (\<lambda>line. Inr ()),
            env_configure = (\<lambda>api_key. Inr ()),
            env_jwt_decode = (\<lambda>token. Inr (Some ''guest'')),
            env_ddgs_text = (\<lambda>query max_results. Inr []),
            env_generate_content = (\<lambda>sector market_data. Inr ''{}''),
            env_json_loads = (\<lambda>json_str. Inl (Exception ''JSONDecodeError'' '''')),
            env_now = 59999999,
            env_strftime = ''2024-01-01 00:00:59'',
            env_isoformat = ''2024-01-01T00:00:59.999999'',
            env_isoformat_session = ''2024-01-01T00:00:59.999999'' \<rparr>"
  let ?st = "\<lparr> rate_limiter_requests =
              snd (run_checks settings
                (map (\<lambda>t. (t, ''guest_127.0.0.1''))
                   [0, 1000000, 2000000, 3000000, 4000000, 5000000,
                    6000000, 7000000, 8000000, 9000000]) Map.empty),
            sessions = Map.empty,
            logged = [] \<rparr>"
  have lower: "str_lower (env_ucd ?env) ''technology'' \<in> set (allowed_sectors settings)"
    by (simp add: str_lower_def is_ascii_def char_lower_def ascii_uppercase_def
          ascii_lowercase_def settings_def)
  have user: "get_current_user (env_jwt_decode ?env) ''token''
                = Inr \<lparr> username = ''guest'', disabled = Some False \<rparr>"
    by (simp add: get_current_user_def get_user_def fake_users_db_def)
  have denied: "fst (is_rate_limited settings (env_now ?env)
           (username \<lparr> username = ''guest'', disabled = Some False \<rparr> @ ''_'' @ ''127.0.0.1'')
           (rate_limiter_requests ?st))"
    by (simp add: settings_def defaultdict_get_def timedelta_seconds_def is_rate_limited_def)
  have period: "str_int (rate_limit_period settings) = ''60''"
    by (simp add: settings_def str_int_def str_nat.simps)
  have "fst (analyze_sector settings ?env ''technology'' \<lparr> client_host = Some ''127.0.0.1'' \<rparr>
               ''token'' ?st)
     = Inl (HTTPError
         \<lparr> status_code = 429,
           detail = ''Rate limit exceeded. Try again in 60 seconds.'',
           headers = [(''Retry-After'', ''60'')] \<rparr>)"
    using analyze_sector_rate_limited[OF lower user _ denied, of "\<lparr> client_host = Some ''127.0.0.1'' \<rparr>"]
      period by simp
  then show ?thesis by (simp add: http_exception_handler_def)
qed

section \<open>Properties of the report\<close>






section \<open>Properties of the endpoint\<close>

text \<open>
  A request that is answered with a response object has passed the validation, the
  authentication and the rate limit check, and its response is the one built in the
  \<open>try\<close>.
\<close>

lemma analyze_sector_Inr:
  assumes "fst (analyze_sector cfg env sector request credentials st) = Inr response_data"
  shows "analyze_sector_try cfg env (str_lower (env_ucd env) sector) = Inr response_data"
proof (cases "str_lower (env_ucd env) sector \<in> set (allowed_sectors cfg)")
  case False
  with assms show ?thesis by (simp add: analyze_sector_def Let_def)
next
  case allowed: True
  show ?thesis
  proof (cases "get_current_user (env_jwt_decode env) credentials")
    case (Inl e)
    with assms allowed show ?thesis by (simp add: analyze_sector_def Let_def)
  next
    case (Inr current_user)
    show ?thesis
    proof (cases "client_host request")
      case None
      with assms allowed Inr show ?thesis by (simp add: analyze_sector_def Let_def)
    next
      case (Some host)
      show ?thesis
      proof (cases "fst (check_rate_limit cfg (env_now env) (username current_user @ ''_'' @ host)
                      (rate_limiter_requests st))")
        case (Inl h)
        with assms allowed Inr Some show ?thesis
          by (simp add: analyze_sector_def Let_def split_beta)
      next
        case admitted: (Inr u)
        show ?thesis
        proof (cases "analyze_sector_try cfg env (str_lower (env_ucd env) sector)")
          case (Inl e)
          with assms allowed Inr Some admitted show ?thesis
            by (simp add: analyze_sector_def Let_def split_beta split: if_splits)
        next
          case ok: (Inr r)
          with assms allowed Inr Some admitted show ?thesis
            by (simp add: analyze_sector_def Let_def split_beta)
        qed
      qed
    qed
  qed
qed

lemma analyze_sector_try_key_news:
  assumes "analyze_sector_try cfg env sector_lower = Inr response_data"
  shows "\<exists>market_data.
           search_market_data (env_ucd env) (env_print env) (env_ddgs_text env) sector_lower 10
             = Inr market_data
           \<and> key_news response_data = take 5 market_data"
  using assms
  by (auto simp: analyze_sector_try_def and_then_eq_Inr Let_def)

text \<open>
  Claim C9. In every response that \<open>analyze_sector\<close> returns, \<open>key_news\<close> is the list of
  the first five records of the market data that the search returned for this request, or
  all of them when there are fewer: at most five entries, the i-th being the i-th record
  fetched.
\<close>

theorem key_news_first_five:
  assumes "fst (analyze_sector cfg env sector request credentials st) = Inr response_data"
  shows "\<exists>market_data.
           search_market_data (env_ucd env) (env_print env) (env_ddgs_text env)
               (str_lower (env_ucd env) sector) 10 = Inr market_data
           \<and> key_news response_data = take 5 market_data
           \<and> length (key_news response_data) = min 5 (length market_data)
           \<and> length (key_news response_data) \<le> 5
           \<and> (\<forall>i < length (key_news response_data).
                 key_news response_data ! i = market_data ! i)"
proof -
  from analyze_sector_try_key_news[OF analyze_sector_Inr[OF assms]]
  obtain market_data where
    s: "search_market_data (env_ucd env) (env_print env) (env_ddgs_text env)
               (str_lower (env_ucd env) sector) 10 = Inr market_data"
    and k: "key_news response_data = take 5 market_data"
    by blast
  have "length (key_news response_data) = min 5 (length market_data)"
    using k by (simp add: min.commute)
  moreover have "length (key_news response_data) \<le> 5" using k by simp
  moreover have "\<forall>i < length (key_news response_data).
                 key_news response_data ! i = market_data ! i"
    using k by simp
  ultimately show ?thesis using s k by blast
qed

theorem key_news_first_five_witness:
  "\<exists>response_data.
     fst (analyze_sector settings
          \<lparr> env_ucd = \<lparr> ucd_lower = (\<lambda>s. s), ucd_title = (\<lambda>s. s) \<rparr>,
            env_print = (\<lambda>line. Inr ()),
            env_configure = (\<lambda>api_key. Inr ()),
            env_jwt_decode = (\<lambda>token. Inr (Some ''guest'')),
            env_ddgs_text = (\<lambda>query max_results. Inr [[(''title'', PStr ''a'')], [(''title'', PStr ''b'')], [(''title'', PStr ''c'')], [(''title'', PStr ''d'')], [(''title'', PStr ''e'')], [(''title'', PStr ''f'')]]),
            env_generate_content = (\<lambda>sector market_data. Inr ''{}''),
            env_json_loads = (\<lambda>json_str. Inl (Exception ''JSONDecodeError'' json_str)),
            env_now = 0,
            env_strftime = ''2024-01-01 00:00:00'',
            env_isoformat = ''2024-01-01T00:00:00'',
            env_isoformat_session = ''2024-01-01T00:00:00'' \<rparr>
          ''technology'' \<lparr> client_host = Some ''127.0.0.1'' \<rparr> ''token''
          \<lparr> rate_limiter_requests = Map.empty, sessions = Map.empty, logged = [] \<rparr>) = Inr response_data
     \<and> key_news response_data =
         [\<lparr> title = ''a'', source = ''Unknown'', snippet = '''', date = ''Recent'', url = Some '''' \<rparr>,
          \<lparr> title = ''b'', source = ''Unknown'', snippet = '''', date = ''Recent'', url = Some '''' \<rparr>,
          \<lparr> title = ''c'', source = ''Unknown'', snippet = '''', date = ''Recent'', url = Some '''' \<rparr>,
          \<lparr> title = ''d'', source = ''Unknown'', snippet = '''', date = ''Recent'', url = Some '''' \<rparr>,
          \<lparr> title = ''e'', source = ''Unknown'', snippet = '''', date = ''Recent'', url = Some '''' \<rparr>]
     \<and> length (key_news response_data) \<le> 5"
proof -
  let ?env = "\<lparr> env_ucd = \<lparr> ucd_lower = (\<lambda>s. s), ucd_title = (\<lambda>s. s) \<rparr>,
            env_print = (\<lambda>line. Inr ()),
            env_configure = (\<lambda>api_key. Inr ()),
            env_jwt_decode = (\<lambda>token. Inr (Some ''guest'')),
            env_ddgs_text = (\<lambda>query max_results. Inr [[(''title'', PStr ''a'')], [(''title'', PStr ''b'')], [(''title'', PStr ''c'')], [(''title'', PStr ''d'')], [(''title'', PStr ''e'')], [(''title'', PStr ''f'')]]),
            env_generate_content = (\<lambda>sector market_data. Inr ''{}''),
            env_json_loads = (\<lambda>json_str. Inl (Exception ''JSONDecodeError'' json_str)),
            env_now = 0,
            env_strftime = ''2024-01-01 00:00:00'',
            env_isoformat = ''2024-01-01T00:00:00'',
            env_isoformat_session = ''2024-01-01T00:00:00'' \<rparr>"
  let ?st = "\<lparr> rate_limiter_requests = Map.empty, sessions = Map.empty, logged = [] \<rparr>"
  let ?req = "\<lparr> client_host = Some ''127.0.0.1'' \<rparr>"
  have lower: "str_lower (env_ucd ?env) ''technology'' = ''technology''"
    by (simp add: str_lower_def is_ascii_def char_lower_def ascii_uppercase_def
          ascii_lowercase_def)
  have search: "search_market_data (env_ucd ?env) (env_print ?env) (env_ddgs_text ?env)
                  ''technology'' 10 =
        Inr [\<lparr> title = ''a'', source = ''Unknown'', snippet = '''', date = ''Recent'', url = Some '''' \<rparr>,
          \<lparr> title = ''b'', source = ''Unknown'', snippet = '''', date = ''Recent'', url = Some '''' \<rparr>,
          \<lparr> title = ''c'', source = ''Unknown'', snippet = '''', date = ''Recent'', url = Some '''' \<rparr>,
          \<lparr> title = ''d'', source = ''Unknown'', snippet = '''', date = ''Recent'', url = Some '''' \<rparr>,
          \<lparr> title = ''e'', source = ''Unknown'', snippet = '''', date = ''Recent'', url = Some '''' \<rparr>,
          \<lparr> title = ''f'', source = ''Unknown'', snippet = '''', date = ''Recent'', url = Some '''' \<rparr>]"
    by (simp add: search_market_data_def search_try_def new_MarketData_def dict_get_def)
  have analysis: "analyze_with_gemini settings (env_configure ?env) (env_print ?env)
                    (env_generate_content ?env)
                    (env_json_loads ?env) ''technology'' md
                  = Inr (generate_mock_analysis ''technology'' md)" for md
    by (simp add: analyze_with_gemini_def initialize_gemini_def settings_def)
  have opps: "\<exists>ts. new_TradeOpportunities
                 (get_default (get_trade_opportunities (generate_mock_analysis ''technology'' md)) [])
               = Inr ts" for md
    by (simp add: generate_mock_analysis_def get_default_def new_TradeOpportunity_def)
  have body: "\<exists>r. analyze_sector_try settings ?env ''technology'' = Inr r"
    using opps[of "[\<lparr> title = ''a'', source = ''Unknown'', snippet = '''', date = ''Recent'', url = Some '''' \<rparr>,
          \<lparr> title = ''b'', source = ''Unknown'', snippet = '''', date = ''Recent'', url = Some '''' \<rparr>,
          \<lparr> title = ''c'', source = ''Unknown'', snippet = '''', date = ''Recent'', url = Some '''' \<rparr>,
          \<lparr> title = ''d'', source = ''Unknown'', snippet = '''', date = ''Recent'', url = Some '''' \<rparr>,
          \<lparr> title = ''e'', source = ''Unknown'', snippet = '''', date = ''Recent'', url = Some '''' \<rparr>,
          \<lparr> title = ''f'', source = ''Unknown'', snippet = '''', date = ''Recent'', url = Some '''' \<rparr>]"]
    unfolding analyze_sector_try_def search analysis by (auto simp: Let_def)
  have user: "get_current_user (env_jwt_decode ?env) ''token''
                = Inr \<lparr> username = ''guest'', disabled = Some False \<rparr>"
    by (simp add: get_current_user_def get_user_def fake_users_db_def)
  have admitted: "fst (check_rate_limit settings (env_now ?env) ''guest_127.0.0.1''
                    (rate_limiter_requests ?st)) = Inr ()"
    by (simp add: check_rate_limit_def is_rate_limited_def defaultdict_get_def settings_def
          Let_def)
  have allowed: "''technology'' \<in> set (allowed_sectors settings)"
    by (simp add: settings_def)
  from body obtain r where r: "analyze_sector_try settings ?env ''technology'' = Inr r" by blast
  have run: "fst (analyze_sector settings ?env ''technology'' ?req ''token'' ?st) = Inr r"
    using lower user admitted allowed r
    by (simp add: analyze_sector_def Let_def split_beta)
  from key_news_first_five[OF run] lower search
  have "key_news r = take 5 [\<lparr> title = ''a'', source = ''Unknown'', snippet = '''', date = ''Recent'', url = Some '''' \<rparr>,
          \<lparr> title = ''b'', source = ''Unknown'', snippet = '''', date = ''Recent'', url = Some '''' \<rparr>,
          \<lparr> title = ''c'', source = ''Unknown'', snippet = '''', date = ''Recent'', url = Some '''' \<rparr>,
          \<lparr> title = ''d'', source = ''Unknown'', snippet = '''', date = ''Recent'', url = Some '''' \<rparr>,
          \<lparr> title = ''e'', source = ''Unknown'', snippet = '''', date = ''Recent'', url = Some '''' \<rparr>,
          \<lparr> title = ''f'', source = ''Unknown'', snippet = '''', date = ''Recent'', url = Some '''' \<rparr>]"
    and "length (key_news r) \<le> 5"
    by auto
  with run show ?thesis by simp
qed

section \<open>The validation of the sector\<close>

lemma str_in_middle: "str_in sub (a @ sub @ b)"
proof (induction a)
  case Nil
  show ?case
  proof (cases "sub @ b")
    case Nil
    then show ?thesis by simp
  next
    case (Cons c cs)
    have "startswith (sub @ b) sub" by (simp add: startswith_def)
    with Cons show ?thesis by simp
  qed
next
  case (Cons c cs)
  then show ?case by simp
qed

lemma str_join_contains:
  "a \<in> set xs \<Longrightarrow> \<exists>p q. str_join sep xs = p @ a @ q"
proof (induction sep xs rule: str_join.induct)
  case (1 sep)
  then show ?case by simp
next
  case (2 sep x)
  then have "str_join sep [x] = [] @ a @ []" by simp
  then show ?case by blast
next
  case (3 sep x y ys)
  show ?case
  proof (cases "a = x")
    case True
    then have "str_join sep (x # y # ys) = [] @ a @ (sep @ str_join sep (y # ys))" by simp
    then show ?thesis by blast
  next
    case False
    with 3 obtain p q where "str_join sep (y # ys) = p @ a @ q" by auto
    then have "str_join sep (x # y # ys) = (x @ sep @ p) @ a @ q" by simp
    then show ?thesis by blast
  qed
qed

lemma str_in_join: "a \<in> set xs \<Longrightarrow> str_in a (prefix @ str_join sep xs)"
proof -
  assume "a \<in> set xs"
  then obtain p q where "str_join sep xs = p @ a @ q" using str_join_contains by blast
  then have "prefix @ str_join sep xs = (prefix @ p) @ a @ q" by simp
  then show ?thesis using str_in_middle[of a "prefix @ p" q] by simp
qed

text \<open>
  Claim C8, as stated, fails for a sector that is outside the allowed list only by its
  letter case: the endpoint tests the lower-cased sector. At the default settings
  \<open>Technology\<close> is not in the list, yet the request is not rejected: the rate limiter
  records it, the pipeline runs for \<open>technology\<close> and a response is returned.
\<close>

theorem analyze_sector_capitalised_accepted:
  "''Technology'' \<notin> set (allowed_sectors settings)
   \<and> \<not> isl (fst (analyze_sector settings
          \<lparr> env_ucd = \<lparr> ucd_lower = (\<lambda>s. s), ucd_title = (\<lambda>s. s) \<rparr>,
            env_print = (\<lambda>line. Inr ()),
            env_configure = (\<lambda>api_key. Inr ()),
            env_jwt_decode = (\<lambda>token. Inr (Some ''guest'')),
            env_ddgs_text = (\<lambda>query max_results. Inr []),
            env_generate_content = (\<lambda>sector market_data. Inr ''{}''),
            env_json_loads = (\<lambda>json_str. Inl (Exception ''JSONDecodeError'' json_str)),
            env_now = 0,
            env_strftime = ''2024-01-01 00:00:00'',
            env_isoformat = ''2024-01-01T00:00:00'',
            env_isoformat_session = ''2024-01-01T00:00:00'' \<rparr>
          ''Technology'' \<lparr> client_host = Some ''127.0.0.1'' \<rparr> ''token''
          \<lparr> rate_limiter_requests = Map.empty, sessions = Map.empty, logged = [] \<rparr>))
   \<and> defaultdict_get (rate_limiter_requests (snd (analyze_sector settings
          \<lparr> env_ucd = \<lparr> ucd_lower = (\<lambda>s. s), ucd_title = (\<lambda>s. s) \<rparr>,
            env_print = (\<lambda>line. Inr ()),
            env_configure = (\<lambda>api_key. Inr ()),
            env_jwt_decode = (\<lambda>token. Inr (Some ''guest'')),
            env_ddgs_text = (\<lambda>query max_results. Inr []),
            env_generate_content = (\<lambda>sector market_data. Inr ''{}''),
            env_json_loads = (\<lambda>json_str. Inl (Exception ''JSONDecodeError'' json_str)),
            env_now = 0,
            env_strftime = ''2024-01-01 00:00:00'',
            env_isoformat = ''2024-01-01T00:00:00'',
            env_isoformat_session = ''2024-01-01T00:00:00'' \<rparr>
          ''Technology'' \<lparr> client_host = Some ''127.0.0.1'' \<rparr> ''token''
          \<lparr> rate_limiter_requests = Map.empty, sessions = Map.empty, logged = [] \<rparr>)))
         ''guest_127.0.0.1'' = [0]
   \<and> logged (snd (analyze_sector settings
          \<lparr> env_ucd = \<lparr> ucd_lower = (\<lambda>s. s), ucd_title = (\<lambda>s. s) \<rparr>,
            env_print = (\<lambda>line. Inr ()),
            env_configure = (\<lambda>api_key. Inr ()),
            env_jwt_decode = (\<lambda>token. Inr (Some ''guest'')),
            env_ddgs_text = (\<lambda>query max_results. Inr []),
            env_generate_content = (\<lambda>sector market_data. Inr ''{}''),
            env_json_loads = (\<lambda>json_str. Inl (Exception ''JSONDecodeError'' json_str)),
            env_now = 0,
            env_strftime = ''2024-01-01 00:00:00'',
            env_isoformat = ''2024-01-01T00:00:00'',
            env_isoformat_session = ''2024-01-01T00:00:00'' \<rparr>
          ''Technology'' \<lparr> client_host = Some ''127.0.0.1'' \<rparr> ''token''
          \<lparr> rate_limiter_requests = Map.empty, sessions = Map.empty, logged = [] \<rparr>))
       = [''INFO Analyzing sector: technology for user: guest'']"
proof -
  let ?env = "\<lparr> env_ucd = \<lparr> ucd_lower = (\<lambda>s. s), ucd_title = (\<lambda>s. s) \<rparr>,
            env_print = (\<lambda>line. Inr ()),
            env_configure = (\<lambda>api_key. Inr ()),
            env_jwt_decode = (\<lambda>token. Inr (Some ''guest'')),
            env_ddgs_text = (\<lambda>query max_results. Inr []),
            env_generate_content = (\<lambda>sector market_data. Inr ''{}''),
            env_json_loads = (\<lambda>json_str. Inl (Exception ''JSONDecodeError'' json_str)),
            env_now = 0,
            env_strftime = ''2024-01-01 00:00:00'',
            env_isoformat = ''2024-01-01T00:00:00'',
            env_isoformat_session = ''2024-01-01T00:00:00'' \<rparr>"
  let ?st = "\<lparr> rate_limiter_requests = Map.empty, sessions = Map.empty, logged = [] \<rparr>"
  let ?req = "\<lparr> client_host = Some ''127.0.0.1'' \<rparr>"
  have lower: "str_lower (env_ucd ?env) ''Technology'' = ''technology''"
    by (simp add: str_lower_def is_ascii_def char_lower_def ascii_uppercase_def
          ascii_lowercase_def)
  have search: "search_market_data (env_ucd ?env) (env_print ?env) (env_ddgs_text ?env)
                  ''technology'' 10 = Inr []"
    by (simp add: search_market_data_def search_try_def)
  have analysis: "analyze_with_gemini settings (env_configure ?env) (env_print ?env)
                    (env_generate_content ?env)
                    (env_json_loads ?env) ''technology'' md
                  = Inr (generate_mock_analysis ''technology'' md)" for md
    by (simp add: analyze_with_gemini_def initialize_gemini_def settings_def)
  have opps: "\<exists>ts. new_TradeOpportunities
                 (get_default (get_trade_opportunities (generate_mock_analysis ''technology'' md)) [])
               = Inr ts" for md
    by (simp add: generate_mock_analysis_def get_default_def new_TradeOpportunity_def)
  have body: "\<exists>r. analyze_sector_try settings ?env ''technology'' = Inr r"
    using opps[of "[]"]
    unfolding analyze_sector_try_def search analysis by (auto simp: Let_def)
  then obtain r where r: "analyze_sector_try settings ?env ''technology'' = Inr r" by blast
  have user: "get_current_user (env_jwt_decode ?env) ''token''
                = Inr \<lparr> username = ''guest'', disabled = Some False \<rparr>"
    by (simp add: get_current_user_def get_user_def fake_users_db_def)
  have check: "check_rate_limit settings (env_now ?env) ''guest_127.0.0.1''
                    (rate_limiter_requests ?st) = (Inr (), [''guest_127.0.0.1'' \<mapsto> [0]])"
    by (simp add: check_rate_limit_def is_rate_limited_def defaultdict_get_def settings_def
          Let_def)
  have allowed: "''technology'' \<in> set (allowed_sectors settings)"
    by (simp add: settings_def)
  have run: "analyze_sector settings ?env ''Technology'' ?req ''token'' ?st =
               (Inr r, \<lparr> rate_limiter_requests = [''guest_127.0.0.1'' \<mapsto> [0]],
                         sessions = Map.empty,
                         logged = [''INFO Analyzing sector: technology for user: guest''] \<rparr>)"
    using lower user check allowed r
    by (simp add: analyze_sector_def Let_def)
  have "''Technology'' \<notin> set (allowed_sectors settings)"
    by (simp add: settings_def)
  then show ?thesis unfolding run by (simp add: defaultdict_get_def)
qed

text \<open>
  Claim C8, amended. For every requested sector whose lower-cased form is not in the allowed
  list, \<open>analyze_sector\<close> raises the 400 exception whose message is the fixed text followed
  by the allowed sectors joined by commas, so that every allowed sector occurs in it, and
  the response built by the exception handler carries this status and message. The state
  of the process is unchanged: the rate limiter is not consulted, nothing is logged and no
  session is touched. The outcome does not depend on the token library, the search
  provider, the model, the parser or the clock: none of them is reached.
\<close>

theorem analyze_sector_unsupported:
  assumes "str_lower (env_ucd env) sector \<notin> set (allowed_sectors cfg)"
  shows "analyze_sector cfg env sector request credentials st =
           (Inl (HTTPError
              \<lparr> status_code = 400,
                detail = ''Sector not supported. Allowed sectors: ''
                         @ str_join '', '' (allowed_sectors cfg),
                headers = [] \<rparr>), st)
       \<and> (\<forall>a \<in> set (allowed_sectors cfg).
             str_in a (''Sector not supported. Allowed sectors: ''
                       @ str_join '', '' (allowed_sectors cfg)))
       \<and> http_exception_handler request
             \<lparr> status_code = 400,
               detail = ''Sector not supported. Allowed sectors: ''
                        @ str_join '', '' (allowed_sectors cfg),
               headers = [] \<rparr>
           = \<lparr> response_status_code = 400,
               response_content =
                 [(''detail'', ''Sector not supported. Allowed sectors: ''
                               @ str_join '', '' (allowed_sectors cfg))],
               response_headers = [] \<rparr>
       \<and> (\<forall>env'. env_ucd env' = env_ucd env \<longrightarrow>
             analyze_sector cfg env' sector request credentials st
               = analyze_sector cfg env sector request credentials st)"
proof -
  have r: "analyze_sector cfg e sector request credentials st =
           (Inl (HTTPError
              \<lparr> status_code = 400,
                detail = ''Sector not supported. Allowed sectors: ''
                         @ str_join '', '' (allowed_sectors cfg),
                headers = [] \<rparr>), st)"
    if "env_ucd e = env_ucd env" for e
    using assms that by (simp add: analyze_sector_def Let_def)
  have l: "\<forall>a \<in> set (allowed_sectors cfg).
             str_in a (''Sector not supported. Allowed sectors: ''
                       @ str_join '', '' (allowed_sectors cfg))"
  proof (intro ballI)
    fix a
    assume "a \<in> set (allowed_sectors cfg)"
    then show "str_in a (''Sector not supported. Allowed sectors: ''
                       @ str_join '', '' (allowed_sectors cfg))"
      by (rule str_in_join)
  qed
  have h: "http_exception_handler request
             \<lparr> status_code = 400,
               detail = ''Sector not supported. Allowed sectors: ''
                        @ str_join '', '' (allowed_sectors cfg),
               headers = [] \<rparr>
           = \<lparr> response_status_code = 400,
               response_content =
                 [(''detail'', ''Sector not supported. Allowed sectors: ''
                               @ str_join '', '' (allowed_sectors cfg))],
               response_headers = [] \<rparr>"
    by (simp add: http_exception_handler_def)
  have i: "\<forall>env'. env_ucd env' = env_ucd env \<longrightarrow>
             analyze_sector cfg env' sector request credentials st
               = analyze_sector cfg env sector request credentials st"
  proof (intro allI impI)
    fix env' :: environment
    assume e: "env_ucd env' = env_ucd env"
    show "analyze_sector cfg env' sector request credentials st
               = analyze_sector cfg env sector request credentials st"
      unfolding r[OF e] r[OF refl] by (rule refl)
  qed
  show ?thesis
    apply (intro conjI)
       apply (rule r[OF refl])
      apply (rule l)
     apply (rule h)
    apply (rule i)
    done
qed

theorem analyze_sector_unsupported_witness:
  "str_lower \<lparr> ucd_lower = (\<lambda>s. s), ucd_title = (\<lambda>s. s) \<rparr> ''crypto''
     \<notin> set (allowed_sectors settings)
   \<and> analyze_sector settings
          \<lparr> env_ucd = \<lparr> ucd_lower = (\<lambda>s. s), ucd_title = (\<lambda>s. s) \<rparr>,
            env_print = (\<lambda>line. Inr ()),
            env_configure = (\<lambda>api_key. Inr ()),
            env_jwt_decode = (\<lambda>token. Inr (Some ''guest'')),
            env_ddgs_text = (\<lambda>query max_results. Inr []),
            env_generate_content = (\<lambda>sector market_data. Inr ''{}''),
            env_json_loads = (\<lambda>json_str. Inl (Exception ''JSONDecodeError'' json_str)),
            env_now = 0,
            env_strftime = ''2024-01-01 00:00:00'',
            env_isoformat = ''2024-01-01T00:00:00'',
            env_isoformat_session = ''2024-01-01T00:00:00'' \<rparr>
          ''crypto'' \<lparr> client_host = Some ''127.0.0.1'' \<rparr> ''token''
          \<lparr> rate_limiter_requests = Map.empty, sessions = Map.empty, logged = [] \<rparr>
     = (Inl (HTTPError
          \<lparr> status_code = 400,
            detail = ''Sector not supported. Allowed sectors: pharmaceuticals, technology, agriculture, automobile, banking, renewable-energy, real-estate, manufacturing, retail'',
            headers = [] \<rparr>),
        \<lparr> rate_limiter_requests = Map.empty, sessions = Map.empty, logged = [] \<rparr>)
   \<and> str_in ''banking''
        ''Sector not supported. Allowed sectors: pharmaceuticals, technology, agriculture, automobile, banking, renewable-energy, real-estate, manufacturing, retail''"
proof -
  let ?env = "\<lparr> env_ucd = \<lparr> ucd_lower = (\<lambda>s. s), ucd_title = (\<lambda>s. s) \<rparr>,
            env_print = (\<lambda>line. Inr ()),
            env_configure = (\<lambda>api_key. Inr ()),
            env_jwt_decode = (\<lambda>token. Inr (Some ''guest'')),
            env_ddgs_text = (\<lambda>query max_results. Inr []),
            env_generate_content = (\<lambda>sector market_data. Inr ''{}''),
            env_json_loads = (\<lambda>json_str. Inl (Exception ''JSONDecodeError'' json_str)),
            env_now = 0,
            env_strftime = ''2024-01-01 00:00:00'',
            env_isoformat = ''2024-01-01T00:00:00'',
            env_isoformat_session = ''2024-01-01T00:00:00'' \<rparr>"
  let ?st = "\<lparr> rate_limiter_requests = Map.empty, sessions = Map.empty, logged = [] \<rparr>"
  let ?req = "\<lparr> client_host = Some ''127.0.0.1'' \<rparr>"
  have lower: "str_lower (env_ucd ?env) ''crypto'' = ''crypto''"
    by (simp add: str_lower_def is_ascii_def char_lower_def ascii_uppercase_def
          ascii_lowercase_def)
  have hyp: "str_lower (env_ucd ?env) ''crypto'' \<notin> set (allowed_sectors settings)"
    unfolding lower by (simp add: settings_def)
  have join: "''Sector not supported. Allowed sectors: '' @ str_join '', '' (allowed_sectors settings)
      = ''Sector not supported. Allowed sectors: pharmaceuticals, technology, agriculture, automobile, banking, renewable-energy, real-estate, manufacturing, retail''"
    by (simp add: settings_def)
  have mem: "''banking'' \<in> set (allowed_sectors settings)"
    by (simp add: settings_def)
  note t = analyze_sector_unsupported
    [where request = ?req and credentials = "''token''" and st = ?st, OF hyp]
  from t have a: "analyze_sector settings ?env ''crypto'' ?req ''token'' ?st =
           (Inl (HTTPError
              \<lparr> status_code = 400,
                detail = ''Sector not supported. Allowed sectors: ''
                         @ str_join '', '' (allowed_sectors settings),
                headers = [] \<rparr>), ?st)"
    by (rule conjunct1)
  from t mem have b: "str_in ''banking'' (''Sector not supported. Allowed sectors: ''
                       @ str_join '', '' (allowed_sectors settings))"
    by blast
  from hyp a b show ?thesis unfolding join by simp
qed

end
